theory Spec2Isabelle
  imports Main
begin

section \<open>JavaScript values\<close>

text \<open>
  The TypeScript sources pass \<open>any\<close>-typed JSON data around (\<open>values\<close>,
  \<open>creationResponse\<close>, upstream responses). They are modelled by one datatype of
  JavaScript values. Numbers are integers (no claim depends on fractions); an object is
  an association list in property order, the first binding of a key being the effective
  one.
\<close>

datatype jsval =
    Undefined
  | Null
  | Bool bool
  | Num int
  | Str string
  | Arr "jsval list"
  | Obj "(string \<times> jsval) list"

text \<open>Truthiness, as used by \<open>if (x)\<close>, \<open>!x\<close>, \<open>a && b\<close> and \<open>a || b\<close>.\<close>

fun truthy :: "jsval \<Rightarrow> bool" where
  "truthy Undefined = False"
| "truthy Null = False"
| "truthy (Bool b) = b"
| "truthy (Num n) = (n \<noteq> 0)"
| "truthy (Str s) = (s \<noteq> [])"
| "truthy (Arr xs) = True"
| "truthy (Obj kv) = True"

text \<open>
  Strict equality \<open>===\<close>. Primitives compare by value. Two objects or arrays are equal
  only when they are the same reference; the values compared in these sources come
  from different responses or from literals, so they are never the same reference.
\<close>

fun strict_eq :: "jsval \<Rightarrow> jsval \<Rightarrow> bool" where
  "strict_eq Undefined b = (b = Undefined)"
| "strict_eq Null b = (b = Null)"
| "strict_eq (Bool a) b = (b = Bool a)"
| "strict_eq (Num a) b = (b = Num a)"
| "strict_eq (Str a) b = (b = Str a)"
| "strict_eq (Arr xs) b = False"
| "strict_eq (Obj kv) b = False"

text \<open>Property read \<open>v.k\<close> on a value that is neither \<open>null\<close> nor \<open>undefined\<close>.\<close>

fun getp :: "jsval \<Rightarrow> string \<Rightarrow> jsval" where
  "getp (Obj kv) k = (case map_of kv k of Some v \<Rightarrow> v | None \<Rightarrow> Undefined)"
| "getp _ k = Undefined"

definition nullish :: "jsval \<Rightarrow> bool" where
  "nullish v = (v = Undefined \<or> v = Null)"

text \<open>Optional chaining \<open>v?.k\<close>.\<close>

definition opt_prop :: "jsval \<Rightarrow> string \<Rightarrow> jsval" where
  "opt_prop v k = (if nullish v then Undefined else getp v k)"

text \<open>\<open>a || b\<close> on values.\<close>

definition js_or :: "jsval \<Rightarrow> jsval \<Rightarrow> jsval" where
  "js_or a b = (if truthy a then a else b)"

subsection \<open>Conversion to strings\<close>

text \<open>The decimal digit of a number below ten.\<close>

definition digit_char :: "nat \<Rightarrow> char" where
  "digit_char n = ''0123456789'' ! n"

fun digits :: "nat \<Rightarrow> string" where
  "digits n =
     (if n < 10 then [digit_char n]
      else digits (n div 10) @ [digit_char (n mod 10)])"

definition show_int :: "int \<Rightarrow> string" where
  "show_int i = (if i < 0 then CHR ''-'' # digits (nat (- i)) else digits (nat i))"

fun join :: "string \<Rightarrow> string list \<Rightarrow> string" where
  "join sep [] = []"
| "join sep [x] = x"
| "join sep (x # y # ys) = x @ sep @ join sep (y # ys)"

text \<open>
  \<open>String(v)\<close>, which is what a template literal \<open>${v}\<close> and \<open>Array.join\<close> apply.
  Inside an array \<open>null\<close> and \<open>undefined\<close> print as the empty string.
\<close>

fun to_string :: "jsval \<Rightarrow> string" where
  "to_string Undefined = ''undefined''"
| "to_string Null = ''null''"
| "to_string (Bool b) = (if b then ''true'' else ''false'')"
| "to_string (Num n) = show_int n"
| "to_string (Str s) = s"
| "to_string (Arr xs) =
     join '','' (map (\<lambda>x. if x = Undefined \<or> x = Null then [] else to_string x) xs)"
| "to_string (Obj kv) = ''[object Object]''"

section \<open>Errors\<close>

text \<open>
  A thrown value. \<open>Error m\<close> is \<open>new Error(m)\<close>, a runtime \<open>TypeError\<close>, or the plain
  object with a \<open>message\<close> that the SDK rejects with: the sources read only its
  \<open>message\<close>. \<open>AxiosError m response config\<close> is an error for which
  \<open>axios.isAxiosError\<close> holds. \<open>FrappeApiError m statusCode endpoint details\<close> is the
  class of that name.
\<close>

datatype exn =
    Error string
  | AxiosError string jsval jsval
  | FrappeApiError string jsval jsval jsval

fun exn_message :: "exn \<Rightarrow> string" where
  "exn_message (Error m) = m"
| "exn_message (AxiosError m r c) = m"
| "exn_message (FrappeApiError m s e d) = m"

fun isAxiosError :: "exn \<Rightarrow> bool" where
  "isAxiosError (AxiosError m r c) = True"
| "isAxiosError _ = False"

fun isFrappeApiError :: "exn \<Rightarrow> bool" where
  "isFrappeApiError (FrappeApiError m s e d) = True"
| "isFrappeApiError _ = False"

text \<open>The \<open>TypeError\<close> of reading a property of \<open>null\<close> or \<open>undefined\<close>.\<close>

definition type_error_read :: "string \<Rightarrow> exn" where
  "type_error_read k = Error (''Cannot read properties of null or undefined (reading '' @ k @ '')'')"

text \<open>The \<open>TypeError\<close> of calling a method a value does not have.\<close>

definition type_error_call :: "string \<Rightarrow> exn" where
  "type_error_call k = Error (k @ '' is not a function'')"

text \<open>Property read \<open>v.k\<close> that throws on \<open>null\<close> and \<open>undefined\<close>.\<close>

definition prop_t :: "jsval \<Rightarrow> string \<Rightarrow> exn + jsval" where
  "prop_t v k = (if nullish v then Inl (type_error_read k) else Inr (getp v k))"

section \<open>The upstream and the trace of a run\<close>

text \<open>
  \<open>frappe\<close> is the token client and \<open>frappePassword\<close> the password client. Every
  request of a run, and every \<open>setTimeout\<close> wait, is appended to a trace. The upstream is
  a function from the trace so far and the request to the outcome of the request:
  \<open>Inl\<close> a rejection, \<open>Inr\<close> the resolved value. \<open>json_parse\<close> is \<open>JSON.parse\<close>
  (\<open>None\<close> when it throws), \<open>clock\<close> is \<open>Date.now()\<close> in milliseconds at a point of
  the run, and the last two fields are the environment variables of those names.
\<close>

datatype chan = Token | Password

datatype event =
    GetDoc chan jsval jsval
  | CreateDoc chan jsval jsval
  | UpdateDoc chan jsval jsval jsval
  | DeleteDoc chan jsval jsval
  | GetDocList chan jsval jsval
  | CallGet chan string jsval
  | CallPost chan string jsval
  | Login string string
  | Sleep nat

record env =
  upstream :: "event list \<Rightarrow> event \<Rightarrow> exn + jsval"
  json_parse :: "string \<Rightarrow> jsval option"
  clock :: "event list \<Rightarrow> int"
  FRAPPE_USERNAME :: "string option"
  FRAPPE_PASSWORD :: "string option"

definition request :: "env \<Rightarrow> event \<Rightarrow> event list \<Rightarrow> (exn + jsval) \<times> event list" where
  "request e c tr = (upstream e tr c, tr @ [c])"

fun is_sleep :: "event \<Rightarrow> bool" where
  "is_sleep (Sleep ms) = True"
| "is_sleep _ = False"

fun is_create :: "event \<Rightarrow> bool" where
  "is_create (CreateDoc c d v) = True"
| "is_create _ = False"

fun is_login :: "event \<Rightarrow> bool" where
  "is_login (Login u p) = True"
| "is_login _ = False"

fun sleep_ms :: "event \<Rightarrow> nat" where
  "sleep_ms (Sleep ms) = ms"
| "sleep_ms _ = 0"

text \<open>The waits of a trace, in order, and their sum.\<close>

definition delays :: "event list \<Rightarrow> nat list" where
  "delays tr = map sleep_ms (filter is_sleep tr)"

definition total_delay :: "event list \<Rightarrow> nat" where
  "total_delay tr = sum_list (delays tr)"

definition create_attempts :: "event list \<Rightarrow> nat" where
  "create_attempts tr = length (filter is_create tr)"

section \<open>Verification of a created document\<close>

record report =
  success :: bool
  message :: string

definition report_obj :: "report \<Rightarrow> jsval" where
  "report_obj r = Obj [(''success'', Bool (success r)), (''message'', Str (message r))]"

text \<open>
  The block of \<open>verifyDocumentCreation\<close> that fills \<open>filters\<close> from \<open>values\<close>.
  \<open>values.description.substring\<close> exists only on a string.
\<close>

definition build_filters :: "jsval \<Rightarrow> exn + (string \<times> jsval) list" where
  "build_filters values =
     (case prop_t values ''name'' of
        Inl e \<Rightarrow> Inl e
      | Inr n \<Rightarrow>
          if truthy n then Inr [(''name'', Arr [Str ''='', n])]
          else if truthy (getp values ''title'')
          then Inr [(''title'', Arr [Str ''='', getp values ''title''])]
          else if truthy (getp values ''description'')
          then (case getp values ''description'' of
                  Str s \<Rightarrow> Inr [(''description'', Arr [Str ''like'', Str (''%'' @ take 20 s @ ''%'')])]
                | _ \<Rightarrow> Inl (type_error_call ''values.description.substring''))
          else Inr [])"

text \<open>\<open>documents.find(doc => doc.name === name)\<close>: the first match, else \<open>undefined\<close>.\<close>

fun find_by_name :: "jsval \<Rightarrow> jsval list \<Rightarrow> exn + jsval" where
  "find_by_name n [] = Inr Undefined"
| "find_by_name n (d # ds) =
     (if nullish d then Inl (type_error_read ''name'')
      else if strict_eq (getp d ''name'') n then Inr d
      else find_by_name n ds)"

text \<open>
  The inner \<open>try\<close> around the direct fetch: a rejection is logged and verification goes
  on; the test is \<open>document && document.name === creationResponse.name\<close>.
\<close>

definition direct_match :: "exn + jsval \<Rightarrow> jsval \<Rightarrow> bool" where
  "direct_match r rname =
     (case r of
        Inl e \<Rightarrow> False
      | Inr document \<Rightarrow> truthy document \<and> strict_eq (getp document ''name'') rname)"

text \<open>
  The body of the outer \<open>try\<close> of \<open>verifyDocumentCreation\<close>. \<open>getDocList\<close> resolves to
  an array (its SDK type) or to a value without elements; \<open>documents && documents.length > 0\<close>
  holds for a non-empty array.
\<close>

definition verify_body ::
  "env \<Rightarrow> string \<Rightarrow> jsval \<Rightarrow> jsval \<Rightarrow> event list \<Rightarrow> (exn + report) \<times> event list" where
  "verify_body e doctype values creationResponse tr =
     (case prop_t creationResponse ''name'' of
        Inl x \<Rightarrow> (Inl x, tr)
      | Inr rname \<Rightarrow>
          if \<not> truthy rname
          then (Inr \<lparr>success = False, message = ''Response does not contain a document name''\<rparr>, tr)
          else
            (case request e (GetDoc Token (Str doctype) rname) tr of
               (r1, tr1) \<Rightarrow>
                 if direct_match r1 rname
                 then (Inr \<lparr>success = True, message = ''Document verified by direct fetch''\<rparr>, tr1)
                 else
                   (case build_filters values of
                      Inl x \<Rightarrow> (Inl x, tr1)
                    | Inr filters \<Rightarrow>
                        if filters \<noteq> [] then
                          (case request e (GetDocList Token (Str doctype)
                                  (Obj [(''filters'', Obj filters), (''limit'', Num 5)])) tr1 of
                             (Inl x, tr2) \<Rightarrow> (Inl x, tr2)
                           | (Inr documents, tr2) \<Rightarrow>
                               (case documents of
                                  Arr (d # ds) \<Rightarrow>
                                    (case find_by_name rname (d # ds) of
                                       Inl x \<Rightarrow> (Inl x, tr2)
                                     | Inr matchingDoc \<Rightarrow>
                                         if truthy matchingDoc
                                         then (Inr \<lparr>success = True,
                                                 message = ''Document verified by filter search''\<rparr>, tr2)
                                         else (Inr \<lparr>success = False,
                                                 message = ''Found '' @ show_int (int (length (d # ds)))
                                                   @ '' documents matching filters, but none match the expected name ''
                                                   @ to_string rname\<rparr>, tr2))
                                | _ \<Rightarrow> (Inr \<lparr>success = False,
                                          message = ''No documents found matching the creation filters''\<rparr>, tr2)))
                        else (Inr \<lparr>success = False,
                                message = ''Could not verify document creation - no suitable filters available''\<rparr>,
                              tr1))))"

text \<open>The outer \<open>try\<close>/\<open>catch\<close>: whatever the body throws becomes a report.\<close>

definition verifyDocumentCreation ::
  "env \<Rightarrow> string \<Rightarrow> jsval \<Rightarrow> jsval \<Rightarrow> event list \<Rightarrow> (exn + report) \<times> event list" where
  "verifyDocumentCreation e doctype values creationResponse tr =
     (case verify_body e doctype values creationResponse tr of
        (Inl verifyError, tr') \<Rightarrow>
          (Inr \<lparr>success = False,
                message = ''Error during verification: '' @ exn_message verifyError\<rparr>, tr')
      | (Inr r, tr') \<Rightarrow> (Inr r, tr'))"

section \<open>Create with retry\<close>

text \<open>Object spread \<open>{...v}\<close>: the own enumerable properties of \<open>v\<close>.\<close>

fun spread :: "jsval \<Rightarrow> (string \<times> jsval) list" where
  "spread (Obj kv) = kv"
| "spread (Arr xs) = zip (map digits [0..<length xs]) xs"
| "spread (Str s) = zip (map digits [0..<length s]) (map (\<lambda>c. Str [c]) s)"
| "spread _ = []"

fun set_key :: "string \<Rightarrow> jsval \<Rightarrow> (string \<times> jsval) list \<Rightarrow> (string \<times> jsval) list" where
  "set_key k v [] = [(k, v)]"
| "set_key k v ((k', v') # kv) = (if k' = k then (k, v) # kv else (k', v') # set_key k v kv)"

text \<open>\<open>{ ...result, _verification: verificationResult }\<close>\<close>

definition with_verification :: "jsval \<Rightarrow> report \<Rightarrow> jsval" where
  "with_verification result r = Obj (set_key ''_verification'' (report_obj r) (spread result))"

text \<open>\<open>Math.pow(2, attempt - 1) * 1000\<close>\<close>

definition backoff :: "nat \<Rightarrow> nat" where
  "backoff attempt = 2 ^ (attempt - 1) * 1000"

text \<open>
  The \<open>for\<close> loop of \<open>createDocumentWithRetry\<close> from \<open>attempt\<close> on, with the
  \<open>throw\<close> that follows it. The two copies of the function in the sources are the same
  text.
\<close>

function retry_loop ::
  "env \<Rightarrow> string \<Rightarrow> jsval \<Rightarrow> nat \<Rightarrow> nat \<Rightarrow> exn option \<Rightarrow> event list
     \<Rightarrow> (exn + jsval) \<times> event list" where
  "retry_loop e doctype values maxRetries attempt lastError tr =
     (if attempt \<le> maxRetries then
        (case request e (CreateDoc Token (Str doctype) values) tr of
           (Inl error, tr1) \<Rightarrow>
             retry_loop e doctype values maxRetries (attempt + 1) (Some error)
               (tr1 @ [Sleep (backoff attempt)])
         | (Inr result, tr1) \<Rightarrow>
             (case verifyDocumentCreation e doctype values result tr1 of
                (Inl error, tr2) \<Rightarrow>
                  retry_loop e doctype values maxRetries (attempt + 1) (Some error)
                    (tr2 @ [Sleep (backoff attempt)])
              | (Inr verificationResult, tr2) \<Rightarrow>
                  if success verificationResult
                  then (Inr (with_verification result verificationResult), tr2)
                  else retry_loop e doctype values maxRetries (attempt + 1)
                         (Some (Error (''Verification failed: '' @ message verificationResult)))
                         (tr2 @ [Sleep (backoff attempt)])))
      else
        (Inl (case lastError of
                Some error \<Rightarrow> error
              | None \<Rightarrow> Error (''Failed to create document after '' @ show_int (int maxRetries)
                                 @ '' attempts'')), tr))"
  by pat_completeness auto
termination
  by (relation "measure (\<lambda>(e, doctype, values, maxRetries, attempt, lastError, tr).
        maxRetries + 1 - attempt)") auto

declare retry_loop.simps [simp del]

definition createDocumentWithRetry ::
  "env \<Rightarrow> string \<Rightarrow> jsval \<Rightarrow> event list \<Rightarrow> (exn + jsval) \<times> event list" where
  "createDocumentWithRetry e doctype values tr = retry_loop e doctype values 3 1 None tr"

section \<open>Error translation\<close>

text \<open>\<open>Array.join\<close> on values.\<close>

definition join_vals :: "string \<Rightarrow> jsval list \<Rightarrow> string" where
  "join_vals sep xs = join sep (map (\<lambda>x. if nullish x then [] else to_string x) xs)"

text \<open>The inner \<open>try { return JSON.parse(msg) } catch { return msg }\<close>.\<close>

definition parse_or_keep :: "(string \<Rightarrow> jsval option) \<Rightarrow> jsval \<Rightarrow> jsval" where
  "parse_or_keep parse msg = (case parse (to_string msg) of Some v \<Rightarrow> v | None \<Rightarrow> msg)"

text \<open>\<open>parsedMessages.map(m => m.message || m)\<close>, which throws on a \<open>null\<close> element.\<close>

fun message_or_self :: "jsval list \<Rightarrow> exn + jsval list" where
  "message_or_self [] = Inr []"
| "message_or_self (m # ms) =
     (if nullish m then Inl (type_error_read ''message'')
      else (case message_or_self ms of
              Inl x \<Rightarrow> Inl x
            | Inr r \<Rightarrow> Inr (js_or (getp m ''message'') m # r)))"

text \<open>The \<open>_server_messages\<close> branch: the message and the details it produces.\<close>

definition server_messages ::
  "(string \<Rightarrow> jsval option) \<Rightarrow> string \<Rightarrow> jsval \<Rightarrow> string \<times> jsval" where
  "server_messages parse operation sm =
     (let fallback = (''Frappe server message during '' @ operation @ '': '' @ to_string sm,
                      Obj [(''serverMessages'', sm)])
      in case parse (to_string sm) of
           None \<Rightarrow> fallback
         | Some serverMessages \<Rightarrow>
             (let parsedMessages =
                    (case serverMessages of
                       Arr ms \<Rightarrow> map (parse_or_keep parse) ms
                     | _ \<Rightarrow> [serverMessages])
              in case message_or_self parsedMessages of
                   Inl x \<Rightarrow> fallback
                 | Inr shown \<Rightarrow>
                     (''Frappe server message during '' @ operation @ '': '' @ join_vals ''; '' shown,
                      Obj [(''serverMessages'', Arr parsedMessages)])))"

text \<open>\<open>FrappeApiError.fromAxiosError\<close>, on the message, response and config of the error.\<close>

definition fromAxiosError ::
  "(string \<Rightarrow> jsval option) \<Rightarrow> string \<Rightarrow> jsval \<Rightarrow> jsval \<Rightarrow> string \<Rightarrow> exn" where
  "fromAxiosError parse emsg response config operation =
     (let statusCode = opt_prop response ''status'';
          endpoint = js_or (opt_prop config ''url'') (Str ''unknown'');
          plain = ''Frappe API error during '' @ operation @ '': '' @ emsg;
          data = opt_prop response ''data''
      in if truthy data then
           if truthy (getp data ''exception'')
           then FrappeApiError (''Frappe exception during '' @ operation @ '': ''
                                  @ to_string (getp data ''exception'')) statusCode endpoint data
           else if truthy (getp data ''_server_messages'')
           then (case server_messages parse operation (getp data ''_server_messages'') of
                   (m, details) \<Rightarrow> FrappeApiError m statusCode endpoint details)
           else if truthy (getp data ''message'')
           then FrappeApiError (''Frappe API error during '' @ operation @ '': ''
                                  @ to_string (getp data ''message'')) statusCode endpoint data
           else FrappeApiError plain statusCode endpoint Null
         else FrappeApiError plain statusCode endpoint Null)"

text \<open>\<open>handleApiError\<close> never returns: the model gives the error it throws.\<close>

definition handleApiError :: "env \<Rightarrow> exn \<Rightarrow> string \<Rightarrow> exn" where
  "handleApiError e error operation =
     (case error of
        AxiosError m response config \<Rightarrow> fromAxiosError (json_parse e) m response config operation
      | _ \<Rightarrow> FrappeApiError (''Error during '' @ operation @ '': '' @ exn_message error)
               Undefined Undefined Undefined)"

text \<open>\<open>try { ... } catch (error) { return handleApiError(error, operation) }\<close>\<close>

definition translate_errors :: "env \<Rightarrow> string \<Rightarrow> (exn + 'a) \<times> 's \<Rightarrow> (exn + 'a) \<times> 's" where
  "translate_errors e operation r =
     (case r of
        (Inl error, s) \<Rightarrow> (Inl (handleApiError e error operation), s)
      | (Inr v, s) \<Rightarrow> (Inr v, s))"

section \<open>The password session\<close>

text \<open>
  The module variables \<open>isAuthenticated\<close>, \<open>authenticationInProgress\<close> and
  \<open>lastAuthAttempt\<close>, with the trace of the run.
\<close>

record session =
  isAuthenticated :: bool
  authenticationInProgress :: bool
  lastAuthAttempt :: int
  trace :: "event list"

definition initial_session :: session where
  "initial_session = \<lparr>isAuthenticated = False, authenticationInProgress = False,
                        lastAuthAttempt = 0, trace = []\<rparr>"

definition AUTH_TIMEOUT :: int where
  "AUTH_TIMEOUT = 1000 * 60 * 30"

text \<open>Truthiness of an environment variable: set and not empty.\<close>

definition env_set :: "string option \<Rightarrow> bool" where
  "env_set x = (case x of None \<Rightarrow> False | Some v \<Rightarrow> v \<noteq> [])"

definition configured :: "env \<Rightarrow> bool" where
  "configured e = (env_set (FRAPPE_USERNAME e) \<and> env_set (FRAPPE_PASSWORD e))"

definition login_event :: "env \<Rightarrow> event" where
  "login_event e = Login (case FRAPPE_USERNAME e of Some u \<Rightarrow> u | None \<Rightarrow> [])
                         (case FRAPPE_PASSWORD e of Some p \<Rightarrow> p | None \<Rightarrow> [])"

definition request_s :: "env \<Rightarrow> event \<Rightarrow> session \<Rightarrow> (exn + jsval) \<times> session" where
  "request_s e c s = (upstream e (trace s) c, s\<lparr>trace := trace s @ [c]\<rparr>)"

text \<open>
  \<open>while (authenticationInProgress) await sleep(100)\<close>. The flag is cleared only by
  the attempt that set it; in a run of one caller nothing clears it, and the loop
  does not end.
\<close>

partial_function (option) wait_for_authentication :: "session \<Rightarrow> session option" where
  "wait_for_authentication s =
     (if authenticationInProgress s
      then wait_for_authentication (s\<lparr>trace := trace s @ [Sleep 100]\<rparr>)
      else Some s)"

text \<open>\<open>None\<close>: the call does not return.\<close>

definition authenticateWithPassword :: "env \<Rightarrow> session \<Rightarrow> (bool \<times> session) option" where
  "authenticateWithPassword e s =
     (if authenticationInProgress s then
        (case wait_for_authentication s of
           None \<Rightarrow> None
         | Some s' \<Rightarrow> Some (isAuthenticated s', s'))
      else
        (let now = clock e (trace s) in
         if isAuthenticated s \<and> now - lastAuthAttempt s < AUTH_TIMEOUT then Some (True, s)
         else
           (let s1 = s\<lparr>authenticationInProgress := True\<rparr> in
            if \<not> env_set (FRAPPE_USERNAME e) \<or> \<not> env_set (FRAPPE_PASSWORD e)
            then Some (False, s1\<lparr>isAuthenticated := False, authenticationInProgress := False\<rparr>)
            else
              (case request_s e (login_event e) s1 of
                 (Inr response, s2) \<Rightarrow>
                   Some (True, s2\<lparr>isAuthenticated := True, lastAuthAttempt := now,
                                   authenticationInProgress := False\<rparr>)
               | (Inl error, s2) \<Rightarrow>
                   Some (False, s2\<lparr>isAuthenticated := False,
                                    authenticationInProgress := False\<rparr>)))))"

text \<open>
  The sessions a run of one caller can be in between two calls: the initial one, one
  left by \<open>authenticateWithPassword\<close>, or one whose trace other requests have extended.
\<close>

inductive reachable :: "env \<Rightarrow> session \<Rightarrow> bool" for e :: env where
  start: "reachable e initial_session"
| auth: "reachable e s \<Longrightarrow> authenticateWithPassword e s = Some (b, s') \<Longrightarrow> reachable e s'"
| other: "reachable e s \<Longrightarrow> reachable e (s\<lparr>trace := trace s @ ext\<rparr>)"

section \<open>Document operations\<close>



definition getDocument ::
  "env \<Rightarrow> string \<Rightarrow> jsval \<Rightarrow> event list \<Rightarrow> (exn + jsval) \<times> event list" where
  "getDocument e doctype name tr =
     translate_errors e (''get_document('' @ doctype @ '', '' @ to_string name @ '')'')
       (if doctype = [] then (Inl (Error ''DocType is required''), tr)
        else if \<not> truthy name then (Inl (Error ''Document name is required''), tr)
        else
          (case request e (GetDoc Token (Str doctype) name) tr of
             (Inl x, tr1) \<Rightarrow> (Inl x, tr1)
           | (Inr response, tr1) \<Rightarrow>
               if \<not> truthy response
               then (Inl (Error (''Invalid response format for document '' @ doctype @ ''/''
                                   @ to_string name)), tr1)
               else (Inr response, tr1)))"




subsection \<open>The password variants\<close>

text \<open>
  \<open>const authSuccess = await authenticateWithPassword(); if (!authSuccess) throw ...\<close>,
  followed by the rest of the \<open>try\<close> block.
\<close>

definition with_auth ::
  "env \<Rightarrow> session \<Rightarrow> (session \<Rightarrow> (exn + 'a) \<times> session) \<Rightarrow> ((exn + 'a) \<times> session) option" where
  "with_auth e s rest =
     (case authenticateWithPassword e s of
        None \<Rightarrow> None
      | Some (authSuccess, s1) \<Rightarrow>
          if \<not> authSuccess
          then Some (Inl (Error ''Failed to authenticate with username/password''), s1)
          else Some (rest s1))"







subsection \<open>The first module's \<open>getDocument\<close>\<close>


section \<open>Listing documents\<close>

text \<open>\<open>s.endsWith(suf)\<close> and \<open>s.split(" ")[0]\<close>\<close>

definition ends_with :: "string \<Rightarrow> string \<Rightarrow> bool" where
  "ends_with s suf = (length suf \<le> length s \<and> drop (length s - length suf) s = suf)"

definition first_token :: "string \<Rightarrow> string" where
  "first_token s = takeWhile (\<lambda>c. c \<noteq> CHR '' '') s"

text \<open>The block that sets \<open>order_dir\<close> and rewrites \<open>order_by\<close>.\<close>

definition split_order :: "string option \<Rightarrow> string option \<times> string" where
  "split_order order_by =
     (case order_by of
        None \<Rightarrow> (None, ''asc'')
      | Some s \<Rightarrow>
          if ends_with s '' desc'' then (Some (first_token s), ''desc'')
          else if ends_with s '' asc'' then (Some (first_token s), ''asc'')
          else (Some s, ''asc''))"

text \<open>\<open>order_by ? { field: order_by, order: order_dir } : undefined\<close>\<close>

definition order_arg :: "string option \<Rightarrow> string \<Rightarrow> jsval" where
  "order_arg order_by order_dir =
     (case order_by of
        None \<Rightarrow> Undefined
      | Some f \<Rightarrow> if f \<noteq> [] then Obj [(''field'', Str f), (''order'', Str order_dir)] else Undefined)"

definition list_args :: "jsval \<Rightarrow> jsval \<Rightarrow> jsval \<Rightarrow> jsval \<Rightarrow> jsval \<Rightarrow> jsval" where
  "list_args flds filters orderBy limit_start limit =
     Obj [(''fields'', flds), (''filters'', filters), (''orderBy'', orderBy),
          (''limit_start'', limit_start), (''limit'', limit)]"

text \<open>
  The \<open>params\<close> object is only logged, but \<open>limit.toString()\<close> and
  \<open>limit_start.toString()\<close> throw on \<open>null\<close>.
\<close>

definition log_params :: "jsval \<Rightarrow> jsval \<Rightarrow> exn + unit" where
  "log_params limit limit_start =
     (if limit = Null \<or> limit_start = Null then Inl (type_error_read ''toString'') else Inr ())"

definition listDocuments ::
  "env \<Rightarrow> string \<Rightarrow> jsval \<Rightarrow> jsval \<Rightarrow> jsval \<Rightarrow> string option \<Rightarrow> jsval \<Rightarrow> event list
     \<Rightarrow> (exn + jsval) \<times> event list" where
  "listDocuments e doctype filters flds limit order_by limit_start tr =
     translate_errors e (''list_documents('' @ doctype @ '')'')
       (if doctype = [] then (Inl (Error ''DocType is required''), tr)
        else
          (case split_order order_by of
             (order_by', order_dir) \<Rightarrow>
               (case log_params limit limit_start of
                  Inl x \<Rightarrow> (Inl x, tr)
                | Inr u \<Rightarrow>
                    (case request e (GetDocList Token (Str doctype)
                            (list_args flds filters (order_arg order_by' order_dir)
                               limit_start limit)) tr of
                       (Inl x, tr1) \<Rightarrow> (Inl x, tr1)
                     | (Inr response, tr1) \<Rightarrow>
                         if \<not> truthy response
                         then (Inl (Error (''Invalid response format for listing '' @ doctype)), tr1)
                         else (Inr response, tr1)))))"

definition listDocumentsWithAuth ::
  "env \<Rightarrow> string \<Rightarrow> jsval \<Rightarrow> jsval \<Rightarrow> jsval \<Rightarrow> string option \<Rightarrow> jsval \<Rightarrow> session
     \<Rightarrow> ((exn + jsval) \<times> session) option" where
  "listDocumentsWithAuth e doctype filters flds limit order_by limit_start s =
     map_option
       (translate_errors e (''list_documents_with_auth('' @ doctype @ '')''))
       (if doctype = [] then Some (Inl (Error ''DocType is required''), s)
        else with_auth e s (\<lambda>s1.
          (case split_order order_by of
             (order_by', order_dir) \<Rightarrow>
               (case log_params limit limit_start of
                  Inl x \<Rightarrow> (Inl x, s1)
                | Inr u \<Rightarrow>
                    (case request_s e (GetDocList Password (Str doctype)
                            (list_args flds filters (order_arg order_by' order_dir)
                               limit_start limit)) s1 of
                       (Inl x, s2) \<Rightarrow> (Inl x, s2)
                     | (Inr response, s2) \<Rightarrow>
                         if \<not> truthy response
                         then (Inl (Error (''Invalid response format for listing '' @ doctype)), s2)
                         else (Inr response, s2))))))"

text \<open>
  The first module's \<open>listDocuments\<close>: \<open>order_by\<close> is passed on whole, with the order
  \<open>'asc'\<close>. Its \<open>handleApiError\<close> is the parameter \<open>translate\<close>.
\<close>

definition listDocuments_first ::
  "(exn \<Rightarrow> string \<Rightarrow> exn) \<Rightarrow> env \<Rightarrow> string \<Rightarrow> jsval \<Rightarrow> jsval \<Rightarrow> jsval \<Rightarrow> string option
     \<Rightarrow> jsval \<Rightarrow> event list \<Rightarrow> (exn + jsval) \<times> event list" where
  "listDocuments_first translate e doctype filters flds limit order_by limit_start tr =
     (case (if doctype = [] then (Inl (Error ''DocType is required''), tr)
            else
              (case log_params limit limit_start of
                 Inl x \<Rightarrow> (Inl x, tr)
               | Inr u \<Rightarrow>
                   (case request e (GetDocList Token (Str doctype)
                           (list_args flds filters (order_arg order_by ''asc'')
                              limit_start limit)) tr of
                      (Inl x, tr1) \<Rightarrow> (Inl x, tr1)
                    | (Inr response, tr1) \<Rightarrow>
                        if \<not> truthy response
                        then (Inl (Error (''Invalid response format for listing '' @ doctype)), tr1)
                        else (Inr response, tr1)))) of
        (Inl error, tr') \<Rightarrow> (Inl (translate error (''list_documents('' @ doctype @ '')'')), tr')
      | (Inr response, tr') \<Rightarrow> (Inr response, tr'))"

section \<open>Schema\<close>

text \<open>\<open>v.k === 1\<close>\<close>

definition flag :: "jsval \<Rightarrow> string \<Rightarrow> jsval" where
  "flag v k = Bool (strict_eq (getp v k) (Num 1))"

text \<open>\<open>xs.map(f)\<close> for a callback that may throw.\<close>

fun map_t :: "('a \<Rightarrow> exn + 'b) \<Rightarrow> 'a list \<Rightarrow> exn + 'b list" where
  "map_t f [] = Inr []"
| "map_t f (x # xs) =
     (case f x of
        Inl err \<Rightarrow> Inl err
      | Inr y \<Rightarrow> (case map_t f xs of Inl err \<Rightarrow> Inl err | Inr ys \<Rightarrow> Inr (y # ys)))"

text \<open>\<open>xs.find(p)\<close> for a test \<open>p\<close> that reads the property \<open>k\<close> of its argument.\<close>

fun find_t :: "string \<Rightarrow> (jsval \<Rightarrow> bool) \<Rightarrow> jsval list \<Rightarrow> exn + jsval" where
  "find_t k p [] = Inr Undefined"
| "find_t k p (x # xs) =
     (if nullish x then Inl (type_error_read k)
      else if p x then Inr x
      else find_t k p xs)"

text \<open>The object the metadata path makes of one raw field record.\<close>

definition field_descriptor :: "jsval \<Rightarrow> jsval" where
  "field_descriptor field =
     Obj [(''fieldname'', getp field ''fieldname''),
          (''label'', getp field ''label''),
          (''fieldtype'', getp field ''fieldtype''),
          (''required'', flag field ''reqd''),
          (''description'', getp field ''description''),
          (''default'', getp field ''default''),
          (''options'', getp field ''options''),
          (''min_length'', getp field ''min_length''),
          (''max_length'', getp field ''max_length''),
          (''min_value'', getp field ''min_value''),
          (''max_value'', getp field ''max_value''),
          (''linked_doctype'',
             if strict_eq (getp field ''fieldtype'') (Str ''Link'') then getp field ''options'' else Null),
          (''child_doctype'',
             if strict_eq (getp field ''fieldtype'') (Str ''Table'') then getp field ''options'' else Null),
          (''in_list_view'', flag field ''in_list_view''),
          (''in_standard_filter'', flag field ''in_standard_filter''),
          (''in_global_search'', flag field ''in_global_search''),
          (''bold'', flag field ''bold''),
          (''hidden'', flag field ''hidden''),
          (''read_only'', flag field ''read_only''),
          (''allow_on_submit'', flag field ''allow_on_submit''),
          (''set_only_once'', flag field ''set_only_once''),
          (''allow_bulk_edit'', flag field ''allow_bulk_edit''),
          (''translatable'', flag field ''translatable'')]"

definition field_descriptor_t :: "jsval \<Rightarrow> exn + jsval" where
  "field_descriptor_t field =
     (if nullish field then Inl (type_error_read ''fieldname'') else Inr (field_descriptor field))"

text \<open>\<open>(docTypeData.fields || []).map(...)\<close>\<close>

definition meta_fields :: "jsval \<Rightarrow> exn + jsval list" where
  "meta_fields docTypeData =
     (case js_or (getp docTypeData ''fields'') (Arr []) of
        Arr xs \<Rightarrow> map_t field_descriptor_t xs
      | _ \<Rightarrow> Inl (type_error_call ''map''))"

text \<open>The schema of the metadata path, from the response of \<open>frappe.get_meta\<close>.\<close>

definition schema_from_meta :: "jsval \<Rightarrow> jsval \<Rightarrow> exn + jsval" where
  "schema_from_meta doctype docTypeData =
     (let doctypeInfo = js_or (getp docTypeData ''doctype'') (Obj []) in
      case meta_fields docTypeData of
        Inl x \<Rightarrow> Inl x
      | Inr fs \<Rightarrow>
          Inr (Obj [(''name'', doctype),
                    (''label'', js_or (getp doctypeInfo ''name'') doctype),
                    (''description'', getp doctypeInfo ''description''),
                    (''module'', getp doctypeInfo ''module''),
                    (''issingle'', flag doctypeInfo ''issingle''),
                    (''istable'', flag doctypeInfo ''istable''),
                    (''custom'', flag doctypeInfo ''custom''),
                    (''fields'', Arr fs),
                    (''permissions'', js_or (getp docTypeData ''permissions'') (Arr [])),
                    (''autoname'', getp doctypeInfo ''autoname''),
                    (''name_case'', getp doctypeInfo ''name_case''),
                    (''workflow'', js_or (getp docTypeData ''workflow'') Null),
                    (''is_submittable'', flag doctypeInfo ''is_submittable''),
                    (''quick_entry'', flag doctypeInfo ''quick_entry''),
                    (''track_changes'', flag doctypeInfo ''track_changes''),
                    (''track_views'', flag doctypeInfo ''track_views''),
                    (''has_web_view'', flag doctypeInfo ''has_web_view''),
                    (''allow_rename'', flag doctypeInfo ''allow_rename''),
                    (''allow_copy'', flag doctypeInfo ''allow_copy''),
                    (''allow_import'', flag doctypeInfo ''allow_import''),
                    (''allow_events_in_timeline'', flag doctypeInfo ''allow_events_in_timeline''),
                    (''allow_auto_repeat'', flag doctypeInfo ''allow_auto_repeat''),
                    (''document_type'', getp doctypeInfo ''document_type''),
                    (''icon'', getp doctypeInfo ''icon''),
                    (''max_attachments'', getp doctypeInfo ''max_attachments'')]))"

text \<open>The schema of the document path, from the DocType document.\<close>

definition schema_from_document :: "jsval \<Rightarrow> jsval \<Rightarrow> jsval" where
  "schema_from_document doctype doctypeDoc =
     Obj [(''name'', doctype),
          (''label'', js_or (getp doctypeDoc ''name'') doctype),
          (''description'', getp doctypeDoc ''description''),
          (''module'', getp doctypeDoc ''module''),
          (''issingle'', flag doctypeDoc ''issingle''),
          (''istable'', flag doctypeDoc ''istable''),
          (''custom'', flag doctypeDoc ''custom''),
          (''fields'', js_or (getp doctypeDoc ''fields'') (Arr [])),
          (''permissions'', js_or (getp doctypeDoc ''permissions'') (Arr [])),
          (''autoname'', getp doctypeDoc ''autoname''),
          (''name_case'', getp doctypeDoc ''name_case''),
          (''workflow'', Null),
          (''is_submittable'', flag doctypeDoc ''is_submittable''),
          (''quick_entry'', flag doctypeDoc ''quick_entry''),
          (''track_changes'', flag doctypeDoc ''track_changes''),
          (''track_views'', flag doctypeDoc ''track_views''),
          (''has_web_view'', flag doctypeDoc ''has_web_view''),
          (''allow_rename'', flag doctypeDoc ''allow_rename''),
          (''allow_copy'', flag doctypeDoc ''allow_copy''),
          (''allow_import'', flag doctypeDoc ''allow_import''),
          (''allow_events_in_timeline'', flag doctypeDoc ''allow_events_in_timeline''),
          (''allow_auto_repeat'', flag doctypeDoc ''allow_auto_repeat''),
          (''document_type'', getp doctypeDoc ''document_type''),
          (''icon'', getp doctypeDoc ''icon''),
          (''max_attachments'', getp doctypeDoc ''max_attachments'')]"

definition meta_event :: "jsval \<Rightarrow> event" where
  "meta_event doctype = CallGet Token ''frappe.get_meta'' (Obj [(''doctype'', doctype)])"

definition schema_unavailable :: "jsval \<Rightarrow> exn" where
  "schema_unavailable doctype =
     Error (''Could not retrieve schema for DocType '' @ to_string doctype
              @ '' using any available method'')"

text \<open>
  \<open>getDocTypeSchema\<close>. A rejection of the metadata call leaves \<open>response\<close> undefined;
  whatever the document path throws is logged, and the final \<open>throw\<close> follows.
\<close>

definition getDocTypeSchema ::
  "env \<Rightarrow> jsval \<Rightarrow> event list \<Rightarrow> (exn + jsval) \<times> event list" where
  "getDocTypeSchema e doctype tr =
     translate_errors e (''get_doctype_schema('' @ to_string doctype @ '')'')
       (if \<not> truthy doctype then (Inl (Error ''DocType name is required''), tr)
        else
          (case request e (meta_event doctype) tr of
             (r, tr1) \<Rightarrow>
               (let docTypeData = (case r of Inl x \<Rightarrow> Undefined | Inr response \<Rightarrow> response) in
                if truthy docTypeData then
                  (case schema_from_meta doctype docTypeData of
                     Inl x \<Rightarrow> (Inl x, tr1)
                   | Inr schema \<Rightarrow> (Inr schema, tr1))
                else
                  (case getDocument e ''DocType'' doctype tr1 of
                     (Inl x, tr2) \<Rightarrow> (Inl (schema_unavailable doctype), tr2)
                   | (Inr doctypeDoc, tr2) \<Rightarrow>
                       if \<not> truthy doctypeDoc then (Inl (schema_unavailable doctype), tr2)
                       else (Inr (schema_from_document doctype doctypeDoc), tr2)))))"

section \<open>Field options\<close>

definition option_obj :: "jsval \<Rightarrow> jsval \<Rightarrow> jsval" where
  "option_obj v l = Obj [(''value'', v), (''label'', l)]"

text \<open>\<open>s.split("\n")\<close> and \<open>s.trim()\<close>\<close>

fun split_on :: "char \<Rightarrow> string \<Rightarrow> string list" where
  "split_on c [] = [[]]"
| "split_on c (x # xs) =
     (if x = c then [] # split_on c xs
      else (case split_on c xs of
              y # ys \<Rightarrow> (x # y) # ys
            | [] \<Rightarrow> [[x]]))"

definition is_space :: "char \<Rightarrow> bool" where
  "is_space c = (c \<in> set [CHR 0x09, CHR 0x0A, CHR 0x0B, CHR 0x0C, CHR 0x0D, CHR '' '', CHR 0xA0])"

definition trim :: "string \<Rightarrow> string" where
  "trim s = rev (dropWhile is_space (rev (dropWhile is_space s)))"

text \<open>The \<open>Select\<close> branch.\<close>

definition select_options :: "jsval \<Rightarrow> exn + jsval" where
  "select_options options =
     (if \<not> truthy options then Inr (Arr [])
      else (case options of
              Str s \<Rightarrow>
                Inr (Arr (map (\<lambda>option. option_obj (Str (trim option)) (Str (trim option)))
                           (filter (\<lambda>option. trim option \<noteq> []) (split_on (CHR 0x0A) s))))
            | _ \<Rightarrow> Inl (type_error_call ''field.options.split'')))"

text \<open>\<open>f.fieldname === "title" || f.bold === 1\<close>\<close>

definition is_title_field :: "jsval \<Rightarrow> bool" where
  "is_title_field f =
     (strict_eq (getp f ''fieldname'') (Str ''title'') \<or> strict_eq (getp f ''bold'') (Num 1))"

text \<open>\<open>linkedSchema.fields.find(...)\<close>\<close>

definition title_field :: "jsval \<Rightarrow> exn + jsval" where
  "title_field linkedSchema =
     (case getp linkedSchema ''fields'' of
        Arr fs \<Rightarrow> find_t ''fieldname'' is_title_field fs
      | _ \<Rightarrow> Inl (type_error_call ''linkedSchema.fields.find''))"

text \<open>The callback of \<open>response.map\<close> in the \<open>try\<close> block of the \<open>Link\<close> branch.\<close>

definition link_option :: "jsval \<Rightarrow> jsval \<Rightarrow> exn + jsval" where
  "link_option titleField item =
     (if nullish item then Inl (type_error_read ''name'')
      else
        (let shown = (if truthy titleField
                      then getp item (to_string (getp titleField ''fieldname''))
                      else Undefined)
         in Inr (option_obj (getp item ''name'')
                   (if truthy titleField \<and> truthy shown
                    then Str (to_string (getp item ''name'') @ '' - '' @ to_string shown)
                    else getp item ''name''))))"

text \<open>The callback of \<open>response.map\<close> in the \<open>catch\<close> block.\<close>

definition name_option :: "jsval \<Rightarrow> exn + jsval" where
  "name_option item =
     (if nullish item then Inl (type_error_read ''name'')
      else Inr (option_obj (getp item ''name'') (getp item ''name'')))"

definition link_query :: "jsval \<Rightarrow> jsval \<Rightarrow> jsval \<Rightarrow> event" where
  "link_query linkedDocType displayFields filters =
     GetDocList Token linkedDocType
       (Obj [(''limit'', Num 50), (''fields'', displayFields), (''filters'', filters)])"

text \<open>\<open>if (!response) throw ...; return response.map(callback)\<close>\<close>

definition map_response ::
  "jsval \<Rightarrow> (jsval \<Rightarrow> exn + jsval) \<Rightarrow> jsval \<Rightarrow> exn + jsval" where
  "map_response linkedDocType callback response =
     (if \<not> truthy response
      then Inl (Error (''Invalid response for DocType '' @ to_string linkedDocType))
      else (case response of
              Arr items \<Rightarrow> (case map_t callback items of
                              Inl x \<Rightarrow> Inl x
                            | Inr opts \<Rightarrow> Inr (Arr opts))
            | _ \<Rightarrow> Inl (type_error_call ''response.map'')))"

text \<open>The \<open>try\<close> block of the \<open>Link\<close> branch.\<close>

definition link_options ::
  "env \<Rightarrow> jsval \<Rightarrow> jsval \<Rightarrow> event list \<Rightarrow> (exn + jsval) \<times> event list" where
  "link_options e linkedDocType filters tr =
     (case getDocTypeSchema e linkedDocType tr of
        (Inl x, tr1) \<Rightarrow> (Inl x, tr1)
      | (Inr linkedSchema, tr1) \<Rightarrow>
          (case title_field linkedSchema of
             Inl x \<Rightarrow> (Inl x, tr1)
           | Inr titleField \<Rightarrow>
               (let displayFields =
                      (if truthy titleField
                       then Arr [Str ''name'', getp titleField ''fieldname'']
                       else Arr [Str ''name''])
                in case request e (link_query linkedDocType displayFields filters) tr1 of
                     (Inl x, tr2) \<Rightarrow> (Inl x, tr2)
                   | (Inr response, tr2) \<Rightarrow>
                       (map_response linkedDocType (link_option titleField) response, tr2))))"

text \<open>The \<open>catch\<close> block of the \<open>Link\<close> branch.\<close>

definition link_options_fallback ::
  "env \<Rightarrow> jsval \<Rightarrow> jsval \<Rightarrow> event list \<Rightarrow> (exn + jsval) \<times> event list" where
  "link_options_fallback e linkedDocType filters tr =
     (case request e (link_query linkedDocType (Arr [Str ''name'']) filters) tr of
        (Inl x, tr1) \<Rightarrow> (Inl x, tr1)
      | (Inr response, tr1) \<Rightarrow> (map_response linkedDocType name_option response, tr1))"

text \<open>The chain of tests on \<open>field.fieldtype\<close>.\<close>

definition field_options ::
  "env \<Rightarrow> string \<Rightarrow> jsval \<Rightarrow> jsval \<Rightarrow> event list \<Rightarrow> (exn + jsval) \<times> event list" where
  "field_options e fieldname field filters tr =
     (if strict_eq (getp field ''fieldtype'') (Str ''Link'') then
        (let linkedDocType = getp field ''options'' in
         if \<not> truthy linkedDocType
         then (Inl (Error (''Link field '' @ fieldname
                             @ '' has no options (linked DocType) specified'')), tr)
         else
           (case link_options e linkedDocType filters tr of
              (Inl x, tr1) \<Rightarrow> link_options_fallback e linkedDocType filters tr1
            | (Inr v, tr1) \<Rightarrow> (Inr v, tr1)))
      else if strict_eq (getp field ''fieldtype'') (Str ''Select'') then
        (case select_options (getp field ''options'') of
           Inl x \<Rightarrow> (Inl x, tr)
         | Inr v \<Rightarrow> (Inr v, tr))
      else if strict_eq (getp field ''fieldtype'') (Str ''Table'') then (Inr (Arr []), tr)
      else (Inr (Arr []), tr))"

text \<open>\<open>!schema || !schema.fields || !Array.isArray(schema.fields)\<close> fails: the fields.\<close>

definition schema_fields :: "jsval \<Rightarrow> jsval list option" where
  "schema_fields schema =
     (if truthy schema \<and> truthy (getp schema ''fields'')
      then (case getp schema ''fields'' of Arr fs \<Rightarrow> Some fs | _ \<Rightarrow> None)
      else None)"

text \<open>The \<open>catch\<close> of \<open>getFieldOptions\<close>.\<close>

definition field_options_error :: "env \<Rightarrow> string \<Rightarrow> string \<Rightarrow> exn \<Rightarrow> exn" where
  "field_options_error e doctype fieldname error =
     (case error of
        AxiosError m response config \<Rightarrow>
          fromAxiosError (json_parse e) m response config
            (''get_field_options('' @ doctype @ '', '' @ fieldname @ '')'')
      | _ \<Rightarrow> FrappeApiError (''Error getting field options for '' @ doctype @ ''.'' @ fieldname
                               @ '': '' @ exn_message error) Undefined Undefined Undefined)"

definition getFieldOptions ::
  "env \<Rightarrow> string \<Rightarrow> string \<Rightarrow> jsval \<Rightarrow> event list \<Rightarrow> (exn + jsval) \<times> event list" where
  "getFieldOptions e doctype fieldname filters tr =
     (case (if doctype = [] then (Inl (Error ''DocType name is required''), tr)
            else if fieldname = [] then (Inl (Error ''Field name is required''), tr)
            else
              (case getDocTypeSchema e (Str doctype) tr of
                 (Inl x, tr1) \<Rightarrow> (Inl x, tr1)
               | (Inr schema, tr1) \<Rightarrow>
                   (case schema_fields schema of
                      None \<Rightarrow> (Inl (Error (''Invalid schema returned for DocType '' @ doctype)), tr1)
                    | Some fs \<Rightarrow>
                        (case find_t ''fieldname''
                                (\<lambda>f. strict_eq (getp f ''fieldname'') (Str fieldname)) fs of
                           Inl x \<Rightarrow> (Inl x, tr1)
                         | Inr field \<Rightarrow>
                             if \<not> truthy field
                             then (Inl (Error (''Field '' @ fieldname @ '' not found in DocType ''
                                                 @ doctype)), tr1)
                             else field_options e fieldname field filters tr1)))) of
        (Inl error, tr') \<Rightarrow> (Inl (field_options_error e doctype fieldname error), tr')
      | (Inr v, tr') \<Rightarrow> (Inr v, tr'))"

subsection \<open>Required arguments\<close>





subsection \<open>Inputs for the retry loop\<close>

text \<open>An upstream that rejects every request.\<close>

definition env_down :: env where
  "env_down = \<lparr>upstream = (\<lambda>tr c. Inl (Error ''connect ECONNREFUSED'')),
                json_parse = (\<lambda>s. None), clock = (\<lambda>tr. 0),
                FRAPPE_USERNAME = None, FRAPPE_PASSWORD = None\<rparr>"

definition todo_values :: jsval where
  "todo_values = Obj [(''description'', Str ''Buy milk'')]"

subsection \<open>The cascade as the specification words it\<close>








subsection \<open>Inputs for verification\<close>



definition todo_response :: jsval where
  "todo_response = Obj [(''name'', Str ''TODO-0001'')]"



subsection \<open>Inputs for the password session\<close>

text \<open>
  Credentials configured; \<open>ok\<close> says after which traces the login call succeeds, and
  \<open>clk\<close> is the clock.
\<close>

definition env_login :: "(event list \<Rightarrow> bool) \<Rightarrow> (event list \<Rightarrow> int) \<Rightarrow> env" where
  "env_login ok clk =
     \<lparr>upstream = (\<lambda>tr c. case c of
                     Login u p \<Rightarrow> if ok tr then Inr (Obj [(''message'', Str ''Logged In'')])
                                  else Inl (Error ''Invalid login credentials'')
                   | _ \<Rightarrow> Inl (Error ''DoesNotExistError'')),
      json_parse = (\<lambda>s. None), clock = clk,
      FRAPPE_USERNAME = Some ''admin'', FRAPPE_PASSWORD = Some ''secret''\<rparr>"

text \<open>The login always succeeds and no time passes.\<close>

definition env_fresh :: env where
  "env_fresh = env_login (\<lambda>tr. True) (\<lambda>tr. 1000)"

text \<open>
  Only the first login succeeds, and 2000 seconds pass with every request: more than
  the 30 minutes of the window.
\<close>

definition env_expiring :: env where
  "env_expiring = env_login (\<lambda>tr. tr = []) (\<lambda>tr. 1000 + 2000000 * int (length tr))"

definition logged_in_session :: session where
  "logged_in_session = \<lparr>isAuthenticated = True, authenticationInProgress = False,
                          lastAuthAttempt = 1000, trace = [Login ''admin'' ''secret'']\<rparr>"

text \<open>A strategy is unavailable: its request is rejected or resolves to nothing.\<close>

definition unavailable :: "exn + jsval \<Rightarrow> bool" where
  "unavailable r = (case r of Inl x \<Rightarrow> True | Inr response \<Rightarrow> \<not> truthy response)"

definition doctype_event :: "jsval \<Rightarrow> event" where
  "doctype_event doctype = GetDoc Token (Str ''DocType'') doctype"

subsection \<open>Inputs for the schema\<close>

text \<open>
  An upstream given by its metadata endpoint (by doctype), its document fetch (by name)
  and its list query (by doctype and arguments).
\<close>

definition env_api ::
  "(jsval \<Rightarrow> exn + jsval) \<Rightarrow> (jsval \<Rightarrow> exn + jsval) \<Rightarrow> (jsval \<Rightarrow> jsval \<Rightarrow> exn + jsval) \<Rightarrow> env" where
  "env_api meta doc lst =
     \<lparr>upstream = (\<lambda>tr c. case c of
                     CallGet ch m a \<Rightarrow> meta (getp a ''doctype'')
                   | GetDoc ch d n \<Rightarrow> doc n
                   | GetDocList ch d a \<Rightarrow> lst d a
                   | _ \<Rightarrow> Inl (Error ''DoesNotExistError'')),
      json_parse = (\<lambda>s. None), clock = (\<lambda>tr. 0),
      FRAPPE_USERNAME = None, FRAPPE_PASSWORD = None\<rparr>"

definition raw_field :: jsval where
  "raw_field = Obj [(''fieldname'', Str ''assigned_to''), (''label'', Str ''Assigned To''),
                    (''fieldtype'', Str ''Link''), (''options'', Str ''User''),
                    (''reqd'', Num 1), (''bold'', Num 0)]"

definition todo_meta :: jsval where
  "todo_meta = Obj [(''doctype'', Obj [(''name'', Str ''ToDo'')]), (''fields'', Arr [raw_field])]"

definition todo_doctype_doc :: jsval where
  "todo_doctype_doc = Obj [(''name'', Str ''ToDo''), (''fields'', Arr [raw_field])]"

text \<open>The same DocType data behind a working and behind a failing metadata endpoint.\<close>

definition env_meta_up :: env where
  "env_meta_up = env_api (\<lambda>d. Inr todo_meta) (\<lambda>n. Inr todo_doctype_doc) (\<lambda>d a. Inr (Arr []))"

definition env_meta_down :: env where
  "env_meta_down =
     env_api (\<lambda>d. Inl (Error ''Request failed with status code 404''))
       (\<lambda>n. Inr todo_doctype_doc) (\<lambda>d a. Inr (Arr []))"

subsection \<open>Field options as the specification words them\<close>

text \<open>The field of the given name.\<close>

definition named :: "string \<Rightarrow> jsval \<Rightarrow> bool" where
  "named fieldname f = strict_eq (getp f ''fieldname'') (Str fieldname)"






subsection \<open>Inputs for field options\<close>

definition priority_field :: jsval where
  "priority_field =
     Obj [(''fieldname'', Str ''priority''), (''fieldtype'', Str ''Select''),
          (''options'', Str (''Low'' @ [CHR 0x0A] @ ''Medium'' @ [CHR 0x0A, CHR 0x0A] @ ''High''))]"

definition project_link :: jsval where
  "project_link =
     Obj [(''fieldname'', Str ''project''), (''fieldtype'', Str ''Link''),
          (''options'', Str ''Project'')]"

definition task_meta :: jsval where
  "task_meta = Obj [(''doctype'', Obj [(''name'', Str ''Task'')]),
                    (''fields'', Arr [priority_field, project_link])]"

text \<open>
  The fields of the linked DocType: a bold field first, the field named \<open>title\<close>
  after it.
\<close>

definition project_name_field :: jsval where
  "project_name_field = Obj [(''fieldname'', Str ''project_name''), (''bold'', Num 1)]"

definition project_title_field :: jsval where
  "project_title_field = Obj [(''fieldname'', Str ''title''), (''bold'', Num 0)]"

definition project_doc :: jsval where
  "project_doc = Obj [(''name'', Str ''Project''),
                      (''fields'', Arr [project_name_field, project_title_field])]"

definition project_item :: jsval where
  "project_item = Obj [(''name'', Str ''PROJ-0001''), (''project_name'', Str ''Apollo''),
                       (''title'', Str ''Moon landing'')]"

text \<open>
  The metadata endpoint knows \<open>Task\<close> only; \<open>Project\<close> is read through the document
  path. The list query returns one project, or is rejected unless it asks for the name
  alone.
\<close>

definition env_task :: "bool \<Rightarrow> env" where
  "env_task names_only =
     env_api (\<lambda>d. if d = Str ''Task'' then Inr task_meta
                   else Inl (Error ''Request failed with status code 404''))
             (\<lambda>n. if n = Str ''Project'' then Inr project_doc
                   else Inl (Error ''DoesNotExistError''))
             (\<lambda>d a. if names_only \<and> getp a ''fields'' \<noteq> Arr [Str ''name'']
                     then Inl (Error ''DataError: Field not permitted in query'')
                     else Inr (Arr [project_item]))"

section \<open>Verified properties\<close>

subsection \<open>Traces\<close>

lemma delays_append: "delays (a @ b) = delays a @ delays b"
  by (simp add: delays_def)

lemma create_attempts_append: "create_attempts (a @ b) = create_attempts a + create_attempts b"
  by (simp add: create_attempts_def)

lemma verify_body_trace:
  "verify_body e d v r tr = (x, tr') \<Longrightarrow>
     \<exists>ext. tr' = tr @ ext \<and> filter is_sleep ext = [] \<and> filter is_create ext = []"
  by (auto simp: verify_body_def request_def Let_def
        split: sum.splits if_splits prod.splits jsval.splits list.splits)

lemma verifyDocumentCreation_trace:
  "verifyDocumentCreation e d v r tr = (x, tr') \<Longrightarrow>
     \<exists>ext. tr' = tr @ ext \<and> filter is_sleep ext = [] \<and> filter is_create ext = []"
  unfolding verifyDocumentCreation_def
  by (auto split: prod.splits sum.splits dest: verify_body_trace)

subsection \<open>Create with retry\<close>

lemma upt_step: "a \<le> m \<Longrightarrow> [a..<m + 1] = a # [a + 1..<m + 1]"
  by (simp add: upt_conv_Cons)

text \<open>
  From attempt \<open>a\<close> on the loop issues at most \<open>m + 1 - a\<close> creates; when it ends by
  throwing, it has issued all of them and has waited after each one, the last included.
\<close>

lemma retry_loop_trace:
  "retry_loop e d v m a le tr = (r, tr') \<Longrightarrow>
     \<exists>ext. tr' = tr @ ext \<and> create_attempts ext \<le> m + 1 - a \<and>
       (\<forall>err. r = Inl err \<longrightarrow> delays ext = map backoff [a..<m + 1] \<and> create_attempts ext = m + 1 - a)"
proof (induction e d v m a le tr arbitrary: r tr' rule: retry_loop.induct)
  case (1 e doctype vals maxRetries attempt lastError tr)
  show ?case
  proof (cases "attempt \<le> maxRetries")
    case False
    with "1.prems" show ?thesis
      by (simp add: retry_loop.simps delays_def create_attempts_def)
  next
    case True
    let ?c = "CreateDoc Token (Str doctype) vals"
    let ?tr1 = "tr @ [?c]"
    have req: "request e ?c tr = (upstream e tr ?c, ?tr1)" by (simp add: request_def)
    have ups: "[attempt..<maxRetries + 1] = attempt # [attempt + 1..<maxRetries + 1]"
      using True by (rule upt_step)
    show ?thesis
    proof (cases "upstream e tr ?c")
      case (Inl error)
      have rec: "retry_loop e doctype vals maxRetries (attempt + 1) (Some error)
                   (?tr1 @ [Sleep (backoff attempt)]) = (r, tr')"
        using "1.prems" True Inl req by (subst (asm) retry_loop.simps) simp
      from "1.IH"(1)[OF True req[symmetric] Inl rec]
      obtain ext where ext: "tr' = (?tr1 @ [Sleep (backoff attempt)]) @ ext"
        "create_attempts ext \<le> maxRetries + 1 - (attempt + 1)"
        "\<forall>err. r = Inl err \<longrightarrow> delays ext = map backoff [attempt + 1..<maxRetries + 1]
            \<and> create_attempts ext = maxRetries + 1 - (attempt + 1)"
        by blast
      show ?thesis
        apply (rule exI[of _ "[?c, Sleep (backoff attempt)] @ ext"])
        using ext True ups
        by (auto simp: delays_append create_attempts_append delays_def create_attempts_def)
    next
      case (Inr result)
      obtain x tr2 where ver: "verifyDocumentCreation e doctype vals result ?tr1 = (x, tr2)"
        by force
      from verifyDocumentCreation_trace[OF ver]
      obtain vext where vext: "tr2 = ?tr1 @ vext" "filter is_sleep vext = []" "filter is_create vext = []"
        by blast
      show ?thesis
      proof (cases "case x of Inl error \<Rightarrow> False | Inr vr \<Rightarrow> success vr")
        case True
        then obtain vr where x: "x = Inr vr" "success vr" by (cases x) auto
        have "(r, tr') = (Inr (with_verification result vr), tr2)"
          using "1.prems" \<open>attempt \<le> maxRetries\<close> Inr req ver x
          by (subst (asm) retry_loop.simps) simp
        then show ?thesis
          using vext \<open>attempt \<le> maxRetries\<close>
          by (auto simp: create_attempts_def)
      next
        case False
        define le' where "le' = (case x of Inl error \<Rightarrow> error
                                 | Inr vr \<Rightarrow> Error (''Verification failed: '' @ message vr))"
        have rec: "retry_loop e doctype vals maxRetries (attempt + 1) (Some le')
                     (tr2 @ [Sleep (backoff attempt)]) = (r, tr')"
          using "1.prems" \<open>attempt \<le> maxRetries\<close> Inr req ver False
          by (subst (asm) retry_loop.simps) (auto simp: le'_def split: sum.splits)
        have "\<exists>ext. tr' = (tr2 @ [Sleep (backoff attempt)]) @ ext \<and>
                create_attempts ext \<le> maxRetries + 1 - (attempt + 1) \<and>
                (\<forall>err. r = Inl err \<longrightarrow> delays ext = map backoff [attempt + 1..<maxRetries + 1]
                    \<and> create_attempts ext = maxRetries + 1 - (attempt + 1))"
        proof (cases x)
          case (Inl error)
          with rec have rec': "retry_loop e doctype vals maxRetries (attempt + 1) (Some error)
                     (tr2 @ [Sleep (backoff attempt)]) = (r, tr')" by (simp add: le'_def)
          from "1.IH"(2)[OF \<open>attempt \<le> maxRetries\<close> req[symmetric] Inr ver[symmetric] Inl rec']
          show ?thesis .
        next
          case (Inr vr)
          with False have ns: "\<not> success vr" by simp
          from Inr rec have rec': "retry_loop e doctype vals maxRetries (attempt + 1)
                     (Some (Error (''Verification failed: '' @ message vr)))
                     (tr2 @ [Sleep (backoff attempt)]) = (r, tr')" by (simp add: le'_def)
          from "1.IH"(3)[OF \<open>attempt \<le> maxRetries\<close> req[symmetric] \<open>upstream e tr ?c = Inr result\<close>
                 ver[symmetric] Inr ns rec']
          show ?thesis .
        qed
        then obtain ext where ext: "tr' = (tr2 @ [Sleep (backoff attempt)]) @ ext"
          "create_attempts ext \<le> maxRetries + 1 - (attempt + 1)"
          "\<forall>err. r = Inl err \<longrightarrow> delays ext = map backoff [attempt + 1..<maxRetries + 1]
              \<and> create_attempts ext = maxRetries + 1 - (attempt + 1)"
          by blast
        show ?thesis
          apply (rule exI[of _ "[?c] @ vext @ [Sleep (backoff attempt)] @ ext"])
          using ext vext \<open>attempt \<le> maxRetries\<close> ups
          by (auto simp: delays_append create_attempts_append delays_def create_attempts_def)
      qed
    qed
  qed
qed

text \<open>
  A rejected create and an unverified create continue the loop in the same way: the
  error is recorded, the same wait follows, and the next attempt starts.
\<close>

lemma retry_transport_failure:
  "a \<le> m \<Longrightarrow> upstream e tr (CreateDoc Token (Str d) v) = Inl x \<Longrightarrow>
     retry_loop e d v m a le tr =
     retry_loop e d v m (a + 1) (Some x) (tr @ [CreateDoc Token (Str d) v, Sleep (backoff a)])"
  by (subst retry_loop.simps) (simp add: request_def)

lemma retry_unverified:
  "a \<le> m \<Longrightarrow> upstream e tr (CreateDoc Token (Str d) v) = Inr result \<Longrightarrow>
     verifyDocumentCreation e d v result (tr @ [CreateDoc Token (Str d) v]) = (Inr rep, tr2) \<Longrightarrow>
     \<not> success rep \<Longrightarrow>
     retry_loop e d v m a le tr =
     retry_loop e d v m (a + 1) (Some (Error (''Verification failed: '' @ message rep)))
       (tr2 @ [Sleep (backoff a)])"
  by (subst retry_loop.simps) (simp add: request_def)

lemma backoff_schedule: "map backoff [1..<3 + 1] = [1000, 2000, 4000]"
  by (simp add: backoff_def upt_conv_Cons)

lemma createDocumentWithRetry_at_most_3:
  "create_attempts (snd (createDocumentWithRetry e d v tr)) \<le> create_attempts tr + 3"
proof -
  obtain r tr' where eq: "retry_loop e d v 3 1 None tr = (r, tr')" by force
  from retry_loop_trace[OF eq] obtain ext where
    ext: "tr' = tr @ ext" "create_attempts ext \<le> 3 + 1 - 1" by blast
  have "snd (createDocumentWithRetry e d v tr) = tr'"
    unfolding createDocumentWithRetry_def eq by simp
  with ext show ?thesis by (simp add: create_attempts_append)
qed

text \<open>
  C1. \<open>createDocumentWithRetry\<close> makes at most three create attempts, and waits 1s after
  the first failed attempt and 2s after the second. When all three attempts fail it
  throws, but only after a third wait of 4s: the cumulative delay before the error is
  7s, not 3s.
\<close>

theorem createDocumentWithRetry_exhausted:
  assumes "createDocumentWithRetry e doctype vals tr = (Inl err, tr')"
  shows "\<exists>ext. tr' = tr @ ext \<and> create_attempts ext = 3 \<and>
           delays ext = [1000, 2000, 4000] \<and> total_delay ext = 7000"
proof -
  from assms have "retry_loop e doctype vals 3 1 None tr = (Inl err, tr')"
    by (simp only: createDocumentWithRetry_def)
  from retry_loop_trace[OF this] obtain ext where
    ext: "tr' = tr @ ext" "create_attempts ext = 3 + 1 - 1" "delays ext = map backoff [1..<3 + 1]"
    by blast
  from ext(3) have d: "delays ext = [1000, 2000, 4000]" by (simp only: backoff_schedule)
  then have "total_delay ext = 7000" by (simp add: total_delay_def)
  with ext d show ?thesis by simp
qed

lemma env_down_run:
  "createDocumentWithRetry env_down ''ToDo'' todo_values [] =
     (Inl (Error ''connect ECONNREFUSED''),
      [CreateDoc Token (Str ''ToDo'') todo_values, Sleep 1000,
       CreateDoc Token (Str ''ToDo'') todo_values, Sleep 2000,
       CreateDoc Token (Str ''ToDo'') todo_values, Sleep 4000])"
  by (simp add: createDocumentWithRetry_def retry_loop.simps request_def env_down_def backoff_def)

theorem createDocumentWithRetry_exhausted_witness:
  "fst (createDocumentWithRetry env_down ''ToDo'' todo_values []) = Inl (Error ''connect ECONNREFUSED'')
   \<and> (\<exists>ext. snd (createDocumentWithRetry env_down ''ToDo'' todo_values []) = [] @ ext
         \<and> create_attempts ext = 3 \<and> delays ext = [1000, 2000, 4000] \<and> total_delay ext = 7000)"
  using createDocumentWithRetry_exhausted[OF env_down_run] by (simp add: env_down_run)

subsection \<open>The verification cascade\<close>





















text \<open>
  C9. \<open>verifyDocumentCreation\<close> always returns a report: whatever its body throws,
  a rejected direct fetch or list query included, is turned into a report by the outer
  \<open>catch\<close>.
\<close>

theorem verifyDocumentCreation_never_throws:
  "\<exists>r. fst (verifyDocumentCreation e doctype vals creationResponse tr) = Inr r"
  by (simp add: verifyDocumentCreation_def split: prod.splits sum.splits)

text \<open>With every request rejected, both requests are made and the report is a failure.\<close>

lemma verifyDocumentCreation_upstream_down:
  "verifyDocumentCreation env_down ''ToDo'' todo_values todo_response [] =
     (Inr \<lparr>success = False, message = ''Error during verification: connect ECONNREFUSED''\<rparr>,
      [GetDoc Token (Str ''ToDo'') (Str ''TODO-0001''),
       GetDocList Token (Str ''ToDo'')
         (Obj [(''filters'', Obj [(''description'', Arr [Str ''like'', Str ''%Buy milk%''])]),
               (''limit'', Num 5)])])"
  by (simp add: verifyDocumentCreation_def verify_body_def prop_t_def nullish_def
        todo_response_def todo_values_def request_def env_down_def direct_match_def
        build_filters_def)

subsection \<open>The password session\<close>

lemma wait_for_authentication_clear:
  "\<not> authenticationInProgress s \<Longrightarrow> wait_for_authentication s = Some s"
  by (subst wait_for_authentication.simps) simp

lemma clear_flag: "\<not> authenticationInProgress s \<Longrightarrow> s\<lparr>authenticationInProgress := False\<rparr> = s"
  by (cases s) simp

lemma clear_authenticated: "\<not> isAuthenticated s \<Longrightarrow> s\<lparr>isAuthenticated := False\<rparr> = s"
  by (cases s) simp

lemma authenticateWithPassword_flag:
  "\<not> authenticationInProgress s \<Longrightarrow> authenticateWithPassword e s = Some (b, s') \<Longrightarrow>
     \<not> authenticationInProgress s' \<and> (isAuthenticated s' \<longrightarrow> isAuthenticated s \<or> configured e)"
  by (auto simp: authenticateWithPassword_def Let_def request_s_def configured_def
        split: if_splits sum.splits prod.splits)

text \<open>
  Between two calls no attempt is in progress, and the session is marked authenticated
  only when both credentials are configured.
\<close>

lemma reachable_invariant:
  "reachable e s \<Longrightarrow> \<not> authenticationInProgress s \<and> (isAuthenticated s \<longrightarrow> configured e)"
proof (induction rule: reachable.induct)
  case start
  then show ?case by (simp add: initial_session_def)
next
  case (auth s b s')
  with authenticateWithPassword_flag[of s e b s'] show ?case by blast
next
  case (other s ext)
  then show ?case by simp
qed

lemma authenticate_fresh:
  "\<not> authenticationInProgress s \<Longrightarrow> isAuthenticated s \<Longrightarrow>
     clock e (trace s) - lastAuthAttempt s < AUTH_TIMEOUT \<Longrightarrow>
     authenticateWithPassword e s = Some (True, s)"
  by (simp add: authenticateWithPassword_def)

lemma authenticate_rejected:
  "\<not> authenticationInProgress s \<Longrightarrow>
     \<not> (isAuthenticated s \<and> clock e (trace s) - lastAuthAttempt s < AUTH_TIMEOUT) \<Longrightarrow>
     configured e \<Longrightarrow> upstream e (trace s) (login_event e) = Inl err \<Longrightarrow>
     authenticateWithPassword e s =
       Some (False, s\<lparr>trace := trace s @ [login_event e], isAuthenticated := False\<rparr>)"
  by (cases s) (auto simp: authenticateWithPassword_def Let_def request_s_def configured_def)

lemma authenticate_accepted:
  "\<not> authenticationInProgress s \<Longrightarrow>
     \<not> (isAuthenticated s \<and> clock e (trace s) - lastAuthAttempt s < AUTH_TIMEOUT) \<Longrightarrow>
     configured e \<Longrightarrow> upstream e (trace s) (login_event e) = Inr response \<Longrightarrow>
     authenticateWithPassword e s =
       Some (True, s\<lparr>trace := trace s @ [login_event e], isAuthenticated := True,
                      lastAuthAttempt := clock e (trace s)\<rparr>)"
  by (cases s) (auto simp: authenticateWithPassword_def Let_def request_s_def configured_def)

lemma authenticate_unconfigured:
  "\<not> authenticationInProgress s \<Longrightarrow> \<not> isAuthenticated s \<Longrightarrow> \<not> configured e \<Longrightarrow>
     authenticateWithPassword e s = Some (False, s)"
  by (cases s) (auto simp: authenticateWithPassword_def Let_def configured_def)

text \<open>
  C6. In a session as a run leaves it between two calls, \<open>authenticateWithPassword\<close>
  returns \<open>true\<close> and leaves the session and the trace as they are (no upstream
  contact) when the session is marked authenticated and the last successful
  authentication is younger than \<open>AUTH_TIMEOUT\<close>, 30 minutes. When the login call is
  rejected it returns \<open>false\<close>, marks the session unauthenticated and leaves
  \<open>lastAuthAttempt\<close>, the time of the last success, as it was. When the user name or
  the password is not configured it returns \<open>false\<close>, the session is unauthenticated,
  and no login call is made.
\<close>

theorem authenticateWithPassword_policy:
  assumes "reachable e s"
  shows "(isAuthenticated s \<and> clock e (trace s) - lastAuthAttempt s < AUTH_TIMEOUT \<longrightarrow>
            authenticateWithPassword e s = Some (True, s))
       \<and> (\<not> (isAuthenticated s \<and> clock e (trace s) - lastAuthAttempt s < AUTH_TIMEOUT)
            \<and> configured e \<and> upstream e (trace s) (login_event e) = Inl err \<longrightarrow>
            authenticateWithPassword e s =
              Some (False, s\<lparr>trace := trace s @ [login_event e], isAuthenticated := False\<rparr>))
       \<and> (\<not> configured e \<longrightarrow>
            authenticateWithPassword e s = Some (False, s) \<and> \<not> isAuthenticated s)"
proof -
  from reachable_invariant[OF assms]
  have idle: "\<not> authenticationInProgress s" and inv: "isAuthenticated s \<longrightarrow> configured e"
    by simp_all
  show ?thesis
    using idle inv authenticate_fresh[OF idle, of e] authenticate_rejected[OF idle, of e err]
      authenticate_unconfigured[OF idle, of e]
    by blast
qed

lemma first_login:
  "ok [] \<Longrightarrow> clk [] = 1000 \<Longrightarrow>
     authenticateWithPassword (env_login ok clk) initial_session = Some (True, logged_in_session)"
  by (simp add: authenticateWithPassword_def initial_session_def env_login_def env_set_def
        request_s_def login_event_def logged_in_session_def AUTH_TIMEOUT_def Let_def)

lemma logged_in_reachable:
  "ok [] \<Longrightarrow> clk [] = 1000 \<Longrightarrow> reachable (env_login ok clk) logged_in_session"
  using reachable.auth[OF reachable.start first_login] by blast

lemma env_down_unconfigured: "\<not> configured env_down"
  by (simp add: configured_def env_down_def env_set_def)

theorem authenticateWithPassword_policy_witness:
  "authenticateWithPassword env_fresh logged_in_session = Some (True, logged_in_session)
   \<and> authenticateWithPassword env_expiring logged_in_session =
        Some (False, \<lparr>isAuthenticated = False, authenticationInProgress = False,
                      lastAuthAttempt = 1000,
                      trace = [Login ''admin'' ''secret'', Login ''admin'' ''secret'']\<rparr>)
   \<and> authenticateWithPassword env_down initial_session = Some (False, initial_session)
   \<and> \<not> isAuthenticated initial_session"
proof (intro conjI)
  have r1: "reachable env_fresh logged_in_session"
    unfolding env_fresh_def by (rule logged_in_reachable) simp_all
  show "authenticateWithPassword env_fresh logged_in_session = Some (True, logged_in_session)"
    using authenticateWithPassword_policy[OF r1]
    by (simp add: env_fresh_def env_login_def logged_in_session_def AUTH_TIMEOUT_def)
next
  have r2: "reachable env_expiring logged_in_session"
    unfolding env_expiring_def by (rule logged_in_reachable) simp_all
  show "authenticateWithPassword env_expiring logged_in_session =
        Some (False, \<lparr>isAuthenticated = False, authenticationInProgress = False,
                      lastAuthAttempt = 1000,
                      trace = [Login ''admin'' ''secret'', Login ''admin'' ''secret'']\<rparr>)"
    using authenticateWithPassword_policy[OF r2, of "Error ''Invalid login credentials''"]
    by (simp add: env_expiring_def env_login_def logged_in_session_def AUTH_TIMEOUT_def
          configured_def env_set_def login_event_def)
next
  show "authenticateWithPassword env_down initial_session = Some (False, initial_session)"
    using authenticateWithPassword_policy[OF reachable.start, of env_down] env_down_unconfigured
    by simp
next
  show "\<not> isAuthenticated initial_session"
    using authenticateWithPassword_policy[OF reachable.start, of env_down] env_down_unconfigured
    by simp
qed

subsection \<open>Listing documents\<close>

lemma ends_with_append: "ends_with (f @ suf) suf"
  by (simp add: ends_with_def)

lemma first_token_append: "CHR '' '' \<notin> set f \<Longrightarrow> first_token (f @ CHR '' '' # rest) = f"
  by (auto simp: first_token_def takeWhile_append2 takeWhile_tail)

lemma split_order_desc:
  "CHR '' '' \<notin> set f \<Longrightarrow> split_order (Some (f @ '' desc'')) = (Some f, ''desc'')"
  using first_token_append[of f "''desc''"] ends_with_append[of f "'' desc''"]
  by (simp add: split_order_def)

lemma not_desc: "\<not> ends_with (f @ '' asc'') '' desc''"
  by (simp add: ends_with_def)

lemma split_order_asc:
  "CHR '' '' \<notin> set f \<Longrightarrow> split_order (Some (f @ '' asc'')) = (Some f, ''asc'')"
  using first_token_append[of f "''asc''"] ends_with_append[of f "'' asc''"] not_desc[of f]
  by (simp add: split_order_def)

lemma no_space_no_suffix: "CHR '' '' \<notin> set f \<Longrightarrow> \<not> ends_with f (CHR '' '' # suf)"
proof
  assume a: "CHR '' '' \<notin> set f" and b: "ends_with f (CHR '' '' # suf)"
  from b have "CHR '' '' \<in> set (drop (length f - length (CHR '' '' # suf)) f)"
    by (simp add: ends_with_def)
  with a show False using set_drop_subset by fastforce
qed

lemma split_order_plain:
  "\<not> ends_with s '' desc'' \<Longrightarrow> \<not> ends_with s '' asc'' \<Longrightarrow>
     split_order (Some s) = (Some s, ''asc'')"
  by (simp add: split_order_def)

lemma listDocuments_request:
  "doctype \<noteq> [] \<Longrightarrow> limit \<noteq> Null \<Longrightarrow> limit_start \<noteq> Null \<Longrightarrow>
     split_order order_by = (field, dir) \<Longrightarrow>
     snd (listDocuments e doctype filters flds limit order_by limit_start tr) =
       tr @ [GetDocList Token (Str doctype)
               (list_args flds filters (order_arg field dir) limit_start limit)]"
  by (simp add: listDocuments_def translate_errors_def log_params_def request_def
        split: sum.splits prod.splits)

lemma listDocumentsWithAuth_request:
  "doctype \<noteq> [] \<Longrightarrow> limit \<noteq> Null \<Longrightarrow> limit_start \<noteq> Null \<Longrightarrow>
     split_order order_by = (field, dir) \<Longrightarrow>
     authenticateWithPassword e s = Some (True, s1) \<Longrightarrow>
     map_option (trace \<circ> snd)
       (listDocumentsWithAuth e doctype filters flds limit order_by limit_start s) =
       Some (trace s1 @ [GetDocList Password (Str doctype)
               (list_args flds filters (order_arg field dir) limit_start limit)])"
  by (simp add: listDocumentsWithAuth_def translate_errors_def log_params_def request_s_def
        with_auth_def split: sum.splits prod.splits)

text \<open>
  In the second module a field name followed by \<open>desc\<close> or \<open>asc\<close> reaches the channel
  as the bare field name with that direction, and a field name alone with \<open>asc\<close>.
\<close>

lemma listDocuments_trailing_direction:
  assumes "doctype \<noteq> []" "f \<noteq> []" "CHR '' '' \<notin> set f"
  shows "snd (listDocuments e doctype filters flds Undefined (Some (f @ '' desc'')) Undefined tr) =
       tr @ [GetDocList Token (Str doctype)
               (list_args flds filters (Obj [(''field'', Str f), (''order'', Str ''desc'')])
                  Undefined Undefined)]"
    and "snd (listDocuments e doctype filters flds Undefined (Some (f @ '' asc'')) Undefined tr) =
       tr @ [GetDocList Token (Str doctype)
               (list_args flds filters (Obj [(''field'', Str f), (''order'', Str ''asc'')])
                  Undefined Undefined)]"
    and "snd (listDocuments e doctype filters flds Undefined (Some f) Undefined tr) =
       tr @ [GetDocList Token (Str doctype)
               (list_args flds filters (Obj [(''field'', Str f), (''order'', Str ''asc'')])
                  Undefined Undefined)]"
proof -
  show "snd (listDocuments e doctype filters flds Undefined (Some (f @ '' desc'')) Undefined tr) =
       tr @ [GetDocList Token (Str doctype)
               (list_args flds filters (Obj [(''field'', Str f), (''order'', Str ''desc'')])
                  Undefined Undefined)]"
    using assms listDocuments_request[OF assms(1) _ _ split_order_desc[OF assms(3)]]
    by (simp add: order_arg_def)
  show "snd (listDocuments e doctype filters flds Undefined (Some (f @ '' asc'')) Undefined tr) =
       tr @ [GetDocList Token (Str doctype)
               (list_args flds filters (Obj [(''field'', Str f), (''order'', Str ''asc'')])
                  Undefined Undefined)]"
    using assms listDocuments_request[OF assms(1) _ _ split_order_asc[OF assms(3)]]
    by (simp add: order_arg_def)
  have "\<not> ends_with f '' desc''" "\<not> ends_with f '' asc''"
    using assms(3) by (simp_all add: no_space_no_suffix)
  from listDocuments_request[OF assms(1) _ _ split_order_plain[OF this]]
  show "snd (listDocuments e doctype filters flds Undefined (Some f) Undefined tr) =
       tr @ [GetDocList Token (Str doctype)
               (list_args flds filters (Obj [(''field'', Str f), (''order'', Str ''asc'')])
                  Undefined Undefined)]"
    using assms by (simp add: order_arg_def)
qed

text \<open>
  C3. \<open>list(doctype, order_by = "creation desc")\<close>: the first module's \<open>listDocuments\<close>
  passes the field \<open>creation desc\<close> with the order \<open>asc\<close>, where the second module's
  \<open>listDocuments\<close> and \<open>listDocumentsWithAuth\<close> pass the field \<open>creation\<close> with the
  order \<open>desc\<close>.
\<close>

theorem listDocuments_first_keeps_direction:
  "snd (listDocuments_first translate env_down ''ToDo'' Undefined Undefined Undefined
          (Some ''creation desc'') Undefined []) =
     [GetDocList Token (Str ''ToDo'')
        (list_args Undefined Undefined
           (Obj [(''field'', Str ''creation desc''), (''order'', Str ''asc'')])
           Undefined Undefined)]
   \<and> snd (listDocuments env_down ''ToDo'' Undefined Undefined Undefined
          (Some ''creation desc'') Undefined []) =
     [GetDocList Token (Str ''ToDo'')
        (list_args Undefined Undefined
           (Obj [(''field'', Str ''creation''), (''order'', Str ''desc'')])
           Undefined Undefined)]
   \<and> map_option (trace \<circ> snd)
        (listDocumentsWithAuth env_fresh ''ToDo'' Undefined Undefined Undefined
          (Some ''creation desc'') Undefined logged_in_session) =
     Some [Login ''admin'' ''secret'',
           GetDocList Password (Str ''ToDo'')
             (list_args Undefined Undefined
                (Obj [(''field'', Str ''creation''), (''order'', Str ''desc'')])
                Undefined Undefined)]"
  by (simp add: listDocuments_first_def listDocuments_def listDocumentsWithAuth_def
        split_order_def ends_with_def first_token_def order_arg_def log_params_def
        request_def request_s_def env_down_def translate_errors_def with_auth_def
        authenticateWithPassword_def env_fresh_def env_login_def logged_in_session_def
        AUTH_TIMEOUT_def handleApiError_def)

subsection \<open>Required arguments\<close>





















subsection \<open>The two schema strategies\<close>

text \<open>
  The metadata path is taken when its call resolves to something; the document path when
  the call is rejected or resolves to nothing; and the schema-unavailable error is thrown
  when, and only when, both are unavailable.
\<close>

lemma getDocTypeSchema_meta:
  "truthy doctype \<Longrightarrow> upstream e tr (meta_event doctype) = Inr docTypeData \<Longrightarrow>
     truthy docTypeData \<Longrightarrow> schema_from_meta doctype docTypeData = Inr schema \<Longrightarrow>
     getDocTypeSchema e doctype tr = (Inr schema, tr @ [meta_event doctype])"
  by (simp add: getDocTypeSchema_def request_def translate_errors_def)

lemma getDocTypeSchema_fallback:
  "truthy doctype \<Longrightarrow> unavailable (upstream e tr (meta_event doctype)) \<Longrightarrow>
     upstream e (tr @ [meta_event doctype]) (doctype_event doctype) = Inr doctypeDoc \<Longrightarrow>
     truthy doctypeDoc \<Longrightarrow>
     getDocTypeSchema e doctype tr =
       (Inr (schema_from_document doctype doctypeDoc),
        tr @ [meta_event doctype, doctype_event doctype])"
  by (auto simp: getDocTypeSchema_def request_def translate_errors_def unavailable_def
        getDocument_def Let_def doctype_event_def split: sum.splits)

lemma getDocTypeSchema_unavailable:
  "truthy doctype \<Longrightarrow> unavailable (upstream e tr (meta_event doctype)) \<Longrightarrow>
     unavailable (upstream e (tr @ [meta_event doctype]) (doctype_event doctype)) \<Longrightarrow>
     getDocTypeSchema e doctype tr =
       (Inl (handleApiError e (schema_unavailable doctype)
               (''get_doctype_schema('' @ to_string doctype @ '')'')),
        tr @ [meta_event doctype, doctype_event doctype])"
  by (auto simp: getDocTypeSchema_def request_def translate_errors_def unavailable_def
        getDocument_def Let_def doctype_event_def split: sum.splits)

lemma map_t_error:
  "map_t field_descriptor_t fs = Inl x \<Longrightarrow> x = type_error_read ''fieldname''"
  by (induction fs) (auto simp: field_descriptor_t_def split: if_splits sum.splits)

lemma meta_fields_error:
  "meta_fields data = Inl x \<Longrightarrow> x = type_error_read ''fieldname'' \<or> x = type_error_call ''map''"
  by (auto simp: meta_fields_def split: jsval.splits dest: map_t_error)

lemma schema_unavailable_only_if_both_fail:
  assumes "getDocTypeSchema e doctype tr =
       (Inl (handleApiError e (schema_unavailable doctype) operation), tr')"
  shows "unavailable (upstream e tr (meta_event doctype))
       \<and> unavailable (upstream e (tr @ [meta_event doctype]) (doctype_event doctype))"
proof -
  have neq: "handleApiError e x op \<noteq> handleApiError e (schema_unavailable doctype) operation"
    if "x = Error ''DocType name is required'' \<or> x = type_error_read ''fieldname''
         \<or> x = type_error_call ''map''" for x op
    using that
    by (auto simp: handleApiError_def schema_unavailable_def type_error_read_def
          type_error_call_def)
  show ?thesis
  proof (rule ccontr)
    assume c: "\<not> ?thesis"
    show False
    proof (cases "truthy doctype")
      case False
      with assms neq show False
        by (auto simp: getDocTypeSchema_def translate_errors_def)
    next
      case True
      show False
      proof (cases "unavailable (upstream e tr (meta_event doctype))")
        case False
        then obtain data where d: "upstream e tr (meta_event doctype) = Inr data" "truthy data"
          by (auto simp: unavailable_def split: sum.splits)
        from assms True d obtain x where "schema_from_meta doctype data = Inl x"
          "handleApiError e x (''get_doctype_schema('' @ to_string doctype @ '')'') =
             handleApiError e (schema_unavailable doctype) operation"
          by (auto simp: getDocTypeSchema_def request_def translate_errors_def split: sum.splits)
        moreover from this(1) have "x = type_error_read ''fieldname'' \<or> x = type_error_call ''map''"
          by (auto simp: schema_from_meta_def Let_def split: sum.splits dest: meta_fields_error)
        ultimately show False using neq by blast
      next
        case u1: True
        with c have "\<not> unavailable (upstream e (tr @ [meta_event doctype]) (doctype_event doctype))"
          by simp
        then obtain doc where
          "upstream e (tr @ [meta_event doctype]) (doctype_event doctype) = Inr doc" "truthy doc"
          by (auto simp: unavailable_def split: sum.splits)
        from getDocTypeSchema_fallback[OF True u1 this] assms show False by simp
      qed
    qed
  qed
qed

lemma map_t_total:
  "list_all (\<lambda>x. \<not> nullish x) fs \<Longrightarrow> map_t field_descriptor_t fs = Inr (map field_descriptor fs)"
  by (induction fs) (simp_all add: field_descriptor_t_def)

lemma schema_from_meta_fields:
  "meta_fields data = Inr fs \<Longrightarrow>
     \<exists>ms. schema_from_meta d data = Inr ms \<and> getp ms ''fields'' = Arr fs"
  by (simp add: schema_from_meta_def Let_def)

lemma schema_from_document_fields:
  "getp (schema_from_document d doc) ''fields'' = js_or (getp doc ''fields'') (Arr [])"
  by (simp add: schema_from_document_def)

lemma field_descriptor_fieldname:
  "getp (field_descriptor f) ''fieldname'' = getp f ''fieldname''"
  by (simp add: field_descriptor_def)

text \<open>For the same raw field records both paths list the fields in the same order.\<close>

lemma field_order_preserved:
  assumes "getp data ''fields'' = Arr fs" "getp doc ''fields'' = Arr fs"
    and "list_all (\<lambda>x. \<not> nullish x) fs"
  shows "\<exists>ms. schema_from_meta d data = Inr ms
           \<and> getp ms ''fields'' = Arr (map field_descriptor fs)
           \<and> getp (schema_from_document d doc) ''fields'' = Arr fs
           \<and> map (\<lambda>f. getp f ''fieldname'') (map field_descriptor fs) = map (\<lambda>f. getp f ''fieldname'') fs"
proof -
  have "meta_fields data = Inr (map field_descriptor fs)"
    using assms(1) map_t_total[OF assms(3)] by (simp add: meta_fields_def js_or_def)
  from schema_from_meta_fields[OF this, of d] show ?thesis
    using assms(2) by (auto simp: schema_from_document_fields js_or_def field_descriptor_fieldname)
qed

lemma raw_field_object: "\<not> nullish raw_field"
  by (simp add: raw_field_def nullish_def)

lemma fallback_run:
  "getDocTypeSchema env_meta_down (Str ''ToDo'') [] =
     (Inr (schema_from_document (Str ''ToDo'') todo_doctype_doc),
      [meta_event (Str ''ToDo''), doctype_event (Str ''ToDo'')])"
  by (rule getDocTypeSchema_fallback[where tr = "[]", simplified])
     (simp_all add: env_meta_down_def env_api_def meta_event_def doctype_event_def
        unavailable_def todo_doctype_doc_def)

lemma meta_run:
  "\<exists>ms. getDocTypeSchema env_meta_up (Str ''ToDo'') [] = (Inr ms, [meta_event (Str ''ToDo'')])
      \<and> getp ms ''fields'' = Arr [field_descriptor raw_field]"
proof -
  have "meta_fields todo_meta = Inr [field_descriptor raw_field]"
    by (simp add: meta_fields_def todo_meta_def js_or_def field_descriptor_t_def raw_field_object)
  from schema_from_meta_fields[OF this, of "Str ''ToDo''"] obtain ms where
    ms: "schema_from_meta (Str ''ToDo'') todo_meta = Inr ms"
        "getp ms ''fields'' = Arr [field_descriptor raw_field]" by blast
  have "getDocTypeSchema env_meta_up (Str ''ToDo'') [] = (Inr ms, [] @ [meta_event (Str ''ToDo'')])"
    by (rule getDocTypeSchema_meta[OF _ _ _ ms(1)])
       (simp_all add: env_meta_up_def env_api_def meta_event_def todo_meta_def)
  with ms show ?thesis by simp
qed

text \<open>
  C4. For the same DocType data, with one field record
  \<open>{fieldname: "assigned_to", fieldtype: "Link", options: "User", reqd: 1, bold: 0}\<close>,
  the document path returns the raw record as the field, while the metadata path returns
  its descriptor: the fallback's field has no \<open>required\<close> and no \<open>linked_doctype\<close>, and
  its \<open>bold\<close> is the number 0 where the descriptor has \<open>false\<close>.
\<close>

theorem getDocTypeSchema_fallback_fields_raw:
  "map_sum id (\<lambda>s. getp s ''fields'') (fst (getDocTypeSchema env_meta_down (Str ''ToDo'') [])) =
     Inr (Arr [raw_field])
   \<and> map_sum id (\<lambda>s. getp s ''fields'') (fst (getDocTypeSchema env_meta_up (Str ''ToDo'') [])) =
     Inr (Arr [field_descriptor raw_field])
   \<and> getp raw_field ''required'' = Undefined
   \<and> getp (field_descriptor raw_field) ''required'' = Bool True
   \<and> getp raw_field ''linked_doctype'' = Undefined
   \<and> getp (field_descriptor raw_field) ''linked_doctype'' = Str ''User''
   \<and> getp raw_field ''bold'' = Num 0
   \<and> getp (field_descriptor raw_field) ''bold'' = Bool False"
proof -
  from meta_run obtain ms where
    "getDocTypeSchema env_meta_up (Str ''ToDo'') [] = (Inr ms, [meta_event (Str ''ToDo'')])"
    "getp ms ''fields'' = Arr [field_descriptor raw_field]" by blast
  moreover have "getp (schema_from_document (Str ''ToDo'') todo_doctype_doc) ''fields'' = Arr [raw_field]"
    by (simp add: schema_from_document_fields todo_doctype_doc_def js_or_def)
  ultimately show ?thesis
    by (simp add: fallback_run field_descriptor_def flag_def raw_field_def)
qed

subsection \<open>Field options\<close>

lemma find_t_find:
  "list_all (\<lambda>x. \<not> nullish x) fs \<Longrightarrow>
     find_t k p fs = Inr (case find p fs of Some x \<Rightarrow> x | None \<Rightarrow> Undefined)"
  by (induction fs) simp_all



lemma named_lambda: "(\<lambda>f. strict_eq (getp f ''fieldname'') (Str k)) = named k"
  by (simp add: named_def fun_eq_iff)


lemma getFieldOptions_not_found:
  assumes "doctype \<noteq> []" "fieldname \<noteq> []"
    and "getDocTypeSchema e (Str doctype) tr = (Inr schema, tr1)"
    and "schema_fields schema = Some fs" "list_all (\<lambda>x. \<not> nullish x) fs"
    and "find (named fieldname) fs = None"
  shows "getFieldOptions e doctype fieldname filters tr =
       (Inl (FrappeApiError (''Error getting field options for '' @ doctype @ ''.'' @ fieldname
                               @ '': Field '' @ fieldname @ '' not found in DocType '' @ doctype)
               Undefined Undefined Undefined), tr1)"
  using assms find_t_find[OF assms(5), of "''fieldname''" "named fieldname"]
  by (simp add: getFieldOptions_def named_lambda field_options_error_def)





lemma find_t_none:
  "\<not> list_ex p fs \<Longrightarrow> find_t k p fs = Inr Undefined \<or> find_t k p fs = Inl (type_error_read k)"
  by (induction fs) auto

text \<open>
  C10. When the resolved schema has no field of the requested name, \<open>getFieldOptions\<close>
  throws a \<open>FrappeApiError\<close> whose message names the doctype and the field; when every
  field record of the schema is an object the message is the not-found message.
\<close>

theorem getFieldOptions_unknown_field:
  assumes "doctype \<noteq> []" "fieldname \<noteq> []"
    and "getDocTypeSchema e (Str doctype) tr = (Inr schema, tr1)"
    and "schema_fields schema = Some fs"
    and "\<not> list_ex (named fieldname) fs"
  shows "(\<exists>msg. getFieldOptions e doctype fieldname filters tr =
            (Inl (FrappeApiError (''Error getting field options for '' @ doctype @ ''.''
                                    @ fieldname @ '': '' @ msg)
                    Undefined Undefined Undefined), tr1))
       \<and> (list_all (\<lambda>x. \<not> nullish x) fs \<longrightarrow>
            getFieldOptions e doctype fieldname filters tr =
              (Inl (FrappeApiError (''Error getting field options for '' @ doctype @ ''.''
                                      @ fieldname @ '': Field '' @ fieldname
                                      @ '' not found in DocType '' @ doctype)
                      Undefined Undefined Undefined), tr1))"
proof (intro conjI impI)
  from find_t_none[OF assms(5), of "''fieldname''"]
  show "\<exists>msg. getFieldOptions e doctype fieldname filters tr =
            (Inl (FrappeApiError (''Error getting field options for '' @ doctype @ ''.''
                                    @ fieldname @ '': '' @ msg)
                    Undefined Undefined Undefined), tr1)"
    using assms(1-4)
    by (auto simp: getFieldOptions_def named_lambda field_options_error_def type_error_read_def)
next
  assume ok: "list_all (\<lambda>x. \<not> nullish x) fs"
  from assms(5) have "find (named fieldname) fs = None"
    by (simp add: find_None_iff list_ex_iff)
  from getFieldOptions_not_found[OF assms(1-4) ok this]
  show "getFieldOptions e doctype fieldname filters tr =
              (Inl (FrappeApiError (''Error getting field options for '' @ doctype @ ''.''
                                      @ fieldname @ '': Field '' @ fieldname
                                      @ '' not found in DocType '' @ doctype)
                      Undefined Undefined Undefined), tr1)" .
qed









lemma schema_from_meta_schema_fields:
  "meta_fields data = Inr fs \<Longrightarrow>
     \<exists>ms. schema_from_meta d data = Inr ms \<and> schema_fields ms = Some fs"
  by (simp add: schema_from_meta_def Let_def schema_fields_def)

lemma task_fields_objects:
  "list_all (\<lambda>x. \<not> nullish x) [field_descriptor priority_field, field_descriptor project_link]"
  by (simp add: field_descriptor_def nullish_def)

lemma task_schema:
  "\<exists>ms. getDocTypeSchema (env_task b) (Str ''Task'') [] = (Inr ms, [meta_event (Str ''Task'')])
      \<and> schema_fields ms = Some [field_descriptor priority_field, field_descriptor project_link]"
proof -
  have "meta_fields task_meta = Inr [field_descriptor priority_field, field_descriptor project_link]"
    by (simp add: meta_fields_def task_meta_def js_or_def field_descriptor_t_def nullish_def
          priority_field_def project_link_def)
  from schema_from_meta_schema_fields[OF this, of "Str ''Task''"] obtain ms where
    ms: "schema_from_meta (Str ''Task'') task_meta = Inr ms"
        "schema_fields ms = Some [field_descriptor priority_field, field_descriptor project_link]"
    by blast
  have "getDocTypeSchema (env_task b) (Str ''Task'') [] = (Inr ms, [] @ [meta_event (Str ''Task'')])"
    by (rule getDocTypeSchema_meta[OF _ _ _ ms(1)])
       (simp_all add: env_task_def env_api_def meta_event_def task_meta_def)
  with ms show ?thesis by simp
qed



lemma find_status:
  "\<not> list_ex (named ''status'') [field_descriptor priority_field, field_descriptor project_link]"
  by (simp add: named_def field_descriptor_def priority_field_def project_link_def)





theorem getFieldOptions_unknown_field_witness:
  "getFieldOptions (env_task False) ''Task'' ''status'' Undefined [] =
     (Inl (FrappeApiError
             ''Error getting field options for Task.status: Field status not found in DocType Task''
             Undefined Undefined Undefined),
      [meta_event (Str ''Task'')])"
proof -
  from task_schema[of False] obtain ms where
    run: "getDocTypeSchema (env_task False) (Str ''Task'') [] = (Inr ms, [meta_event (Str ''Task'')])"
    and fs: "schema_fields ms = Some [field_descriptor priority_field, field_descriptor project_link]"
    by blast
  from getFieldOptions_unknown_field[OF _ _ run fs find_status, of Undefined] task_fields_objects
  show ?thesis by simp
qed






lemma project_display:
  "find is_title_field [project_name_field, project_title_field] = Some project_name_field"
  by (simp add: is_title_field_def project_name_field_def)










text \<open>
  On a schema of the metadata path \<open>bold\<close> is a boolean and is never the number 1:
  there only a field named \<open>title\<close> is found.
\<close>

lemma is_title_field_descriptor:
  "is_title_field (field_descriptor f) = named ''title'' f"
  by (simp add: is_title_field_def field_descriptor_def flag_def named_def)

end
